theory Spec2Isabelle
  imports Complex_Main "HOL-Library.Sublist"
begin

section \<open>Values shared by the pool and the client\<close>

text \<open>
  A thread is named by the identity that \<^verbatim>\<open>ThreadIdent.get()\<close> returns, a server by
  its \<^verbatim>\<open>(host, port)\<close> pair. A raw socket (\<^verbatim>\<open>socket.socket\<close>) is an object
  identity together with the peer it was connected to; two raw sockets are equal iff they
  are the same object. A \<^verbatim>\<open>SocketInfo\<close> object is named by its address in the store
  of the pool that created it.
\<close>

type_synonym tid = nat
type_synonym node = "string \<times> int"
type_synonym raw_socket = "nat \<times> node"
type_synonym ref = nat

text \<open>
  A credential is the tuple \<^verbatim>\<open>(mechanism, source, username, password)\<close>;
  \<^verbatim>\<open>credentials[1]\<close> is the source.
\<close>

type_synonym credential = "string \<times> string \<times> string \<times> string"

subsection \<open>Documents\<close>

text \<open>
  A BSON document is a dictionary from field names to values; \<^verbatim>\<open>d.get(k)\<close> and
  \<^verbatim>\<open>k in d\<close> are \<open>map_of d k\<close>. Floating-point values are not modelled.
\<close>

datatype bson =
    BNull
  | BBool bool
  | BInt int
  | BStr string
  | BArray "bson list"
  | BDoc "(string \<times> bson) list"

type_synonym document = "(string \<times> bson) list"

subsection \<open>Exceptions\<close>

text \<open>
  Exception messages are kept as the list of their pieces, so that no number formatting
  is needed: \<^verbatim>\<open>"%s:%d is an arbiter" % node\<close> is
  \<open>[S host, S '':'', D port, S '' is an arbiter'']\<close>. \<^verbatim>\<open>str(e)\<close> of an exception is
  its message.
\<close>

datatype part = S string | D int | R_nat "nat option" | R_rat "rat option"

type_synonym msg = "part list"

text \<open>
  The exceptions of the driver and of Python that the modelled code raises or lets through.
  \<open>OperationFailure\<close> and \<open>DuplicateKeyError\<close> carry the message and the code
  (\<^verbatim>\<open>None\<close> when the reply has none). \<open>Blocks_forever\<close> is not an exception: it stands
  for a call that never returns (a blocking wait that nobody ends in a run with one
  caller); no handler of the model catches it.
\<close>

datatype error =
    ConfigurationError msg
  | ConnectionFailure msg
  | AutoReconnect msg
  | OperationFailure msg "bson option"
  | DuplicateKeyError msg "bson option"
  | DocumentTooLarge msg
  | socket_error msg
  | AssertionError
  | AttributeError
  | IndexError
  | KeyError
  | TypeError
  | ValueError
  | RuntimeError
  | Blocks_forever

fun str :: "error \<Rightarrow> msg" where
  "str (ConfigurationError m) = m"
| "str (ConnectionFailure m) = m"
| "str (AutoReconnect m) = m"
| "str (OperationFailure m c) = m"
| "str (DuplicateKeyError m c) = m"
| "str (DocumentTooLarge m) = m"
| "str (socket_error m) = m"
| "str AssertionError = []"
| "str AttributeError = []"
| "str IndexError = []"
| "str KeyError = []"
| "str TypeError = []"
| "str ValueError = []"
| "str RuntimeError = []"
| "str Blocks_forever = []"

text \<open>
  Modelled from the spec: \<^verbatim>\<open>pymongo.errors\<close> is not among the sources. In the
  taxonomy of the specification \<open>AutoReconnect\<close> is a \<open>ConnectionFailure\<close>,
  \<open>DuplicateKeyError\<close> is an \<open>OperationFailure\<close>, and \<open>DocumentTooLarge\<close> is
  neither of the two.
\<close>

fun is_OperationFailure :: "error \<Rightarrow> bool" where
  "is_OperationFailure (OperationFailure m c) = True"
| "is_OperationFailure (DuplicateKeyError m c) = True"
| "is_OperationFailure e = False"

fun is_ConnectionFailure :: "error \<Rightarrow> bool" where
  "is_ConnectionFailure (ConnectionFailure m) = True"
| "is_ConnectionFailure (AutoReconnect m) = True"
| "is_ConnectionFailure e = False"

fun is_socket_error :: "error \<Rightarrow> bool" where
  "is_socket_error (socket_error m) = True"
| "is_socket_error e = False"

fun is_ConfigurationError :: "error \<Rightarrow> bool" where
  "is_ConfigurationError (ConfigurationError m) = True"
| "is_ConfigurationError e = False"

text \<open>\<^verbatim>\<open>except Exception\<close>: every exception, but not a call that never returns.\<close>

fun is_Exception :: "error \<Rightarrow> bool" where
  "is_Exception Blocks_forever = False"
| "is_Exception e = True"

subsection \<open>Wire data\<close>

text \<open>
  BSON encoding is outside the modelled code: what goes on the wire is either a command
  query (\<^verbatim>\<open>message.query(0, ns, 0, -1, spec)\<close>) or the opaque bytes of a message tuple.
\<close>

type_synonym bytes = "nat list"

datatype payload = Query string document | Data bytes

text \<open>What \<^verbatim>\<open>helpers._unpack_response\<close> returns, of which the code reads two fields.\<close>

record response =
  number_returned :: int
  data :: "document list"

section \<open>The world outside the modelled code\<close>

text \<open>
  What the code reads from the operating system, the network, Python's library and the
  modules that are not among the sources is a field of the world:
  \<^item> the process id and the clock (which does not advance within one call);
  \<^item> whether connecting to a node fails, whether \<^verbatim>\<open>sendall\<close> of a payload fails, what
    receiving the reply to a payload yields (the bytes, or the exception that
    \<^verbatim>\<open>receive_message\<close> raises), the measured round trip, and whether \<^verbatim>\<open>select\<close>
    reports a socket readable (or fails), which is what \<^verbatim>\<open>_closed\<close> returns;
  \<^item> \<^verbatim>\<open>helpers._unpack_response\<close> and \<^verbatim>\<open>helpers._check_command_response\<close>: the
    latter passes (\<open>None\<close>) or raises an error, after calling the \<^verbatim>\<open>reset\<close> callback
    when the flag is set and a callback was given;
  \<^item> what constructing a \<^verbatim>\<open>Member\<close> from a handshake response raises, if anything
    (\<^verbatim>\<open>pymongo.member\<close> is not among the sources; \<^verbatim>\<open>__find_node\<close> names an
    incompatible wire protocol, for which the tests expect \<^verbatim>\<open>ConfigurationError\<close>);
  \<^item> Python's \<^verbatim>\<open>int()\<close> on a string (\<open>None\<close> is \<^verbatim>\<open>ValueError\<close>) and the index
    that \<^verbatim>\<open>random.choice\<close> draws for a list of a given length.
  The world also counts the raw sockets created and keeps the trace of the network
  events, in order.
\<close>

datatype event =
    Connect node
  | Send raw_socket payload
  | Receive raw_socket

record world =
  getpid :: nat
  now :: rat
  connect_error :: "node \<Rightarrow> error option"
  send_error :: "raw_socket \<Rightarrow> payload \<Rightarrow> error option"
  respond :: "raw_socket \<Rightarrow> payload \<Rightarrow> error + bytes"
  round_trip :: "raw_socket \<Rightarrow> rat"
  select_readable :: "raw_socket \<Rightarrow> bool"
  unpack_response :: "bytes \<Rightarrow> error + response"
  check_command_response :: "document \<Rightarrow> (bool \<times> error) option"
  member_error :: "document \<Rightarrow> error option"
  int_of_str :: "string \<Rightarrow> int option"
  random_index :: "nat \<Rightarrow> nat"
  next_socket :: nat
  trace :: "event list"

section \<open>pool.py\<close>

subsection \<open>SocketInfo\<close>

text \<open>
  The fields of \<^verbatim>\<open>SocketInfo\<close>. The weak reference to the owning pool is left out:
  a socket lives in the store of its pool. \<open>si_pool_id\<close> is the socket's \<^verbatim>\<open>pool_id\<close>,
  \<open>exhaust\<close> its \<^verbatim>\<open>_exhaust\<close>.
\<close>

record socket_info =
  sock :: raw_socket
  authset :: "credential list"
  closed :: bool
  last_checkout :: rat
  forced :: bool
  si_pool_id :: nat
  exhaust :: bool

text \<open>
  The values a request state takes: \<^verbatim>\<open>NO_REQUEST = None\<close>, \<^verbatim>\<open>NO_SOCKET_YET = -1\<close>,
  or a \<^verbatim>\<open>SocketInfo\<close> object.
\<close>

datatype req_state = NO_REQUEST | NO_SOCKET_YET | Sock ref

text \<open>\<^verbatim>\<open>hasattr(other, 'sock')\<close>: neither \<^verbatim>\<open>None\<close> nor \<^verbatim>\<open>-1\<close> has the attribute.\<close>

fun hasattr_sock :: "req_state \<Rightarrow> bool" where
  "hasattr_sock (Sock r) = True"
| "hasattr_sock NO_REQUEST = False"
| "hasattr_sock NO_SOCKET_YET = False"

text \<open>\<^verbatim>\<open>SocketInfo.__eq__\<close>, \<^verbatim>\<open>__ne__\<close> and \<^verbatim>\<open>__hash__\<close>, in a store \<open>h\<close>.\<close>

fun SocketInfo_eq :: "(ref \<Rightarrow> socket_info) \<Rightarrow> ref \<Rightarrow> req_state \<Rightarrow> bool" where
  "SocketInfo_eq h self (Sock other) = (sock (h self) = sock (h other))"
| "SocketInfo_eq h self other = False"

definition SocketInfo_ne :: "(ref \<Rightarrow> socket_info) \<Rightarrow> ref \<Rightarrow> req_state \<Rightarrow> bool" where
  "SocketInfo_ne h self other = (\<not> SocketInfo_eq h self other)"

definition SocketInfo_hash :: "(raw_socket \<Rightarrow> int) \<Rightarrow> (ref \<Rightarrow> socket_info) \<Rightarrow> ref \<Rightarrow> int" where
  "SocketInfo_hash hash h self = hash (sock (h self))"

subsection \<open>The semaphore\<close>

text \<open>
  Modelled from the spec: \<^verbatim>\<open>thread_util.create_semaphore\<close> and the semaphore it
  returns are not among the sources. The specification has a counting semaphore of
  \<^verbatim>\<open>max_pool_size\<close> permits: a non-blocking acquire fails when no permit is left, a
  blocking one waits up to \<^verbatim>\<open>wait_queue_timeout\<close> and then fails, a release gives one
  permit back. A pool of unlimited size (\<^verbatim>\<open>max_pool_size\<close> is \<^verbatim>\<open>None\<close>) has no limit
  on its permits. In a run with one caller nobody else releases a permit, so a blocking
  acquire with no permit left and no timeout never returns.
\<close>

datatype semaphore = Unlimited | Permits nat

fun create_semaphore :: "nat option \<Rightarrow> semaphore" where
  "create_semaphore None = Unlimited"
| "create_semaphore (Some n) = Permits n"

fun release :: "semaphore \<Rightarrow> semaphore" where
  "release Unlimited = Unlimited"
| "release (Permits n) = Permits (Suc n)"

fun acquire_nonblocking :: "semaphore \<Rightarrow> bool \<times> semaphore" where
  "acquire_nonblocking Unlimited = (True, Unlimited)"
| "acquire_nonblocking (Permits 0) = (False, Permits 0)"
| "acquire_nonblocking (Permits (Suc n)) = (True, Permits n)"

fun acquire_blocking :: "semaphore \<Rightarrow> rat option \<Rightarrow> error + bool \<times> semaphore" where
  "acquire_blocking Unlimited t = Inr (True, Unlimited)"
| "acquire_blocking (Permits (Suc n)) t = Inr (True, Permits n)"
| "acquire_blocking (Permits 0) (Some t) = Inr (False, Permits 0)"
| "acquire_blocking (Permits 0) None = Inl Blocks_forever"

subsection \<open>Pool\<close>

text \<open>
  Of \<^verbatim>\<open>PoolOptions\<close> the pool itself reads the size and the wait-queue timeout; the
  timeouts, keep-alive and TLS options only reach \<^verbatim>\<open>create_connection\<close>, whose outcome
  is the world's \<open>connect_error\<close>.
\<close>

record pool_options =
  max_pool_size :: "nat option"
  wait_queue_timeout :: "rat option"
  wait_queue_multiple :: "nat option"

text \<open>
  The fields of \<^verbatim>\<open>Pool\<close>. \<open>sockets\<close> is the idle set, in the order in which
  \<^verbatim>\<open>pop\<close> takes from it. \<open>tid_to_sock\<close> is the dictionary \<^verbatim>\<open>_tid_to_sock\<close>.
  \<open>request_counter\<close> is the per-thread counter (modelled from the spec:
  \<^verbatim>\<open>thread_util.Counter\<close> is not among the sources; it is a map from the caller to a
  count, read by \<^verbatim>\<open>get\<close>, changed by \<^verbatim>\<open>inc\<close> and \<^verbatim>\<open>dec\<close>). \<open>heap\<close> is the store
  of the \<^verbatim>\<open>SocketInfo\<close> objects this pool created and \<open>next_ref\<close> the next free
  address. The registry of \<^verbatim>\<open>ThreadIdent\<close> (\<^verbatim>\<open>watch\<close>, \<^verbatim>\<open>unwatch\<close>), which is
  not among the sources either, is not part of the state: the hook it would call is the
  operation \<open>on_thread_died\<close>.
\<close>

record pool =
  check_interval_seconds :: "rat option"
  sockets :: "ref list"
  pool_id :: nat
  pid :: nat
  pair :: node
  opts :: pool_options
  tid_to_sock :: "tid \<Rightarrow> req_state option"
  request_counter :: "tid \<Rightarrow> int"
  socket_semaphore :: semaphore
  heap :: "ref \<Rightarrow> socket_info"
  next_ref :: nat

text \<open>What an address holds before \<^verbatim>\<open>connect\<close> has put a socket there.\<close>

definition no_socket :: "node \<Rightarrow> socket_info" where
  "no_socket nd = \<lparr>sock = (0, nd), authset = [], closed = True, last_checkout = 0,
     forced = False, si_pool_id = 0, exhaust = False\<rparr>"

text \<open>\<^verbatim>\<open>Pool.__init__\<close>.\<close>

definition Pool :: "world \<Rightarrow> node \<Rightarrow> pool_options \<Rightarrow> pool" where
  "Pool w pr options =
     \<lparr>check_interval_seconds = Some 1,
      sockets = [],
      pool_id = 0,
      pid = getpid w,
      pair = pr,
      opts = options,
      tid_to_sock = Map.empty,
      request_counter = (\<lambda>t. 0),
      socket_semaphore = create_semaphore (max_pool_size options),
      heap = (\<lambda>r. no_socket pr),
      next_ref = 0\<rparr>"

text \<open>\<^verbatim>\<open>SocketInfo.close\<close> on the socket at \<open>r\<close>.\<close>

definition close :: "pool \<Rightarrow> ref \<Rightarrow> pool" where
  "close p r = p\<lparr>heap := (heap p)(r := (heap p r)\<lparr>closed := True\<rparr>)\<rparr>"

definition set_forced :: "pool \<Rightarrow> ref \<Rightarrow> bool \<Rightarrow> pool" where
  "set_forced p r b = p\<lparr>heap := (heap p)(r := (heap p r)\<lparr>forced := b\<rparr>)\<rparr>"

definition set_last_checkout :: "pool \<Rightarrow> ref \<Rightarrow> rat \<Rightarrow> pool" where
  "set_last_checkout p r t = p\<lparr>heap := (heap p)(r := (heap p r)\<lparr>last_checkout := t\<rparr>)\<rparr>"

text \<open>\<^verbatim>\<open>Pool.reset\<close>.\<close>

definition reset :: "world \<Rightarrow> pool \<Rightarrow> pool" where
  "reset w p =
     (let socks = sockets p;
          p1 = p\<lparr>pool_id := pool_id p + 1, pid := getpid w, sockets := []\<rparr>
      in foldl close p1 socks)"

text \<open>
  \<^verbatim>\<open>Pool.connect\<close>: \<^verbatim>\<open>create_connection\<close>, the TLS handshake and the timeout either fail
  with the world's error, or a new \<^verbatim>\<open>SocketInfo\<close> wraps a new raw socket.
\<close>

definition connect :: "world \<Rightarrow> pool \<Rightarrow> (error + ref) \<times> pool \<times> world" where
  "connect w p =
     (let w1 = w\<lparr>trace := trace w @ [Connect (pair p)]\<rparr> in
      case connect_error w (pair p) of
        Some e \<Rightarrow> (Inl e, p, w1)
      | None \<Rightarrow>
          (let r = next_ref p;
               si = \<lparr>sock = (next_socket w, pair p), authset = [], closed = False,
                     last_checkout = now w, forced = False, si_pool_id = pool_id p,
                     exhaust = False\<rparr>
           in (Inr r,
               p\<lparr>heap := (heap p)(r := si), next_ref := Suc r\<rparr>,
               w1\<lparr>next_socket := Suc (next_socket w)\<rparr>)))"

text \<open>\<^verbatim>\<open>Pool._get_request_state\<close> and \<^verbatim>\<open>Pool._set_request_state\<close> of thread \<open>t\<close>.\<close>

definition get_request_state :: "pool \<Rightarrow> tid \<Rightarrow> req_state" where
  "get_request_state p t = (case tid_to_sock p t of None \<Rightarrow> NO_REQUEST | Some s \<Rightarrow> s)"

definition set_request_state :: "pool \<Rightarrow> tid \<Rightarrow> req_state \<Rightarrow> pool" where
  "set_request_state p t sock_info =
     (if sock_info = NO_REQUEST
      then p\<lparr>tid_to_sock := (tid_to_sock p)(t := None)\<rparr>
      else p\<lparr>tid_to_sock := (tid_to_sock p)(t := Some sock_info)\<rparr>)"

text \<open>
  \<^verbatim>\<open>self.sockets.add(sock_info)\<close>: a Python set keeps the element it has when an equal
  one (by \<^verbatim>\<open>__eq__\<close>) is added.
\<close>

definition sockets_add :: "(ref \<Rightarrow> socket_info) \<Rightarrow> ref \<Rightarrow> ref list \<Rightarrow> ref list" where
  "sockets_add h r xs = (if list_ex (\<lambda>x. SocketInfo_eq h r (Sock x)) xs then xs else xs @ [r])"

text \<open>\<^verbatim>\<open>Pool._return_socket\<close>.\<close>

definition return_socket :: "pool \<Rightarrow> ref \<Rightarrow> pool" where
  "return_socket p r =
     (let max_size = max_pool_size (opts p);
          too_many_sockets = (case max_size of None \<Rightarrow> False
                              | Some m \<Rightarrow> length (sockets p) \<ge> m);
          p1 = (if \<not> too_many_sockets \<and> si_pool_id (heap p r) = pool_id p
                then p\<lparr>sockets := sockets_add (heap p) r (sockets p)\<rparr>
                else close p r)
      in if forced (heap p1 r)
         then set_forced p1 r False
         else p1\<lparr>socket_semaphore := release (socket_semaphore p1)\<rparr>)"

text \<open>\<^verbatim>\<open>Pool._check\<close>.\<close>

definition check_sock :: "world \<Rightarrow> pool \<Rightarrow> ref \<Rightarrow> (error + ref) \<times> pool \<times> world" where
  "check_sock w p r =
     (let si = heap p r;
          age = now w - last_checkout si;
          (err, p1) =
            (if closed si then (True, p)
             else if pool_id p \<noteq> si_pool_id si then (True, close p r)
             else if (case check_interval_seconds p of None \<Rightarrow> False
                      | Some i \<Rightarrow> 0 = i \<or> age > i)
             then (if select_readable w (sock si) then (True, close p r) else (False, p))
             else (False, p))
      in if \<not> err then (Inr r, p1, w)
         else (case connect w p1 of
                 (Inl e, p2, w2) \<Rightarrow>
                   (if is_socket_error e then (Inl e, reset w2 p2, w2) else (Inl e, p2, w2))
               | (Inr r', p2, w2) \<Rightarrow> (Inr r', p2, w2)))"

text \<open>\<^verbatim>\<open>Pool._raise_wait_queue_timeout\<close>.\<close>

definition wait_queue_timeout_error :: "pool \<Rightarrow> error" where
  "wait_queue_timeout_error p =
     ConnectionFailure
       [S ''Timed out waiting for socket from pool with max_size '',
        R_nat (max_pool_size (opts p)),
        S '' and wait_queue_timeout '',
        R_rat (wait_queue_timeout (opts p))]"

text \<open>
  \<^verbatim>\<open>Pool.get_socket\<close> called by thread \<open>t\<close>. The part after the semaphore is
  \<open>get_socket_body\<close>: the \<^verbatim>\<open>try\<close> block, whose \<^verbatim>\<open>except\<close> releases the permit.
\<close>

definition get_socket_body ::
  "world \<Rightarrow> pool \<Rightarrow> tid \<Rightarrow> req_state \<Rightarrow> bool \<Rightarrow> (error + ref) \<times> pool \<times> world" where
  "get_socket_body w p t req_state forced0 =
     (let (res, p1, w1) =
            (case sockets p of
               [] \<Rightarrow> connect w p
             | x # xs \<Rightarrow> check_sock w (p\<lparr>sockets := xs\<rparr>) x)
      in case res of
           Inl e \<Rightarrow>
             (Inl e,
              (if \<not> forced0 then p1\<lparr>socket_semaphore := release (socket_semaphore p1)\<rparr>
               else p1),
              w1)
         | Inr sock_info \<Rightarrow>
             (let p2 = set_forced p1 sock_info forced0;
                  p3 = (if req_state = NO_SOCKET_YET
                        then set_request_state p2 t (Sock sock_info) else p2)
              in (Inr sock_info, set_last_checkout p3 sock_info (now w1), w1)))"

definition get_socket :: "world \<Rightarrow> pool \<Rightarrow> tid \<Rightarrow> bool \<Rightarrow> (error + ref) \<times> pool \<times> world" where
  "get_socket w p t force =
     (let p0 = (if pid p \<noteq> getpid w then reset w p else p);
          req_state = get_request_state p0 t
      in case req_state of
           Sock r \<Rightarrow>
             (case check_sock w p0 r of
                (Inl e, p1, w1) \<Rightarrow> (Inl e, p1, w1)
              | (Inr checked_sock, p1, w1) \<Rightarrow>
                  (let p2 = (if SocketInfo_ne (heap p1) checked_sock req_state
                             then set_request_state p1 t (Sock checked_sock) else p1)
                   in (Inr checked_sock, set_last_checkout p2 checked_sock (now w1), w1)))
         | _ \<Rightarrow>
             (if force
              then (case acquire_nonblocking (socket_semaphore p0) of
                      (ok, sem) \<Rightarrow>
                        get_socket_body w (p0\<lparr>socket_semaphore := sem\<rparr>) t req_state (\<not> ok))
              else (case acquire_blocking (socket_semaphore p0) (wait_queue_timeout (opts p0)) of
                      Inl e \<Rightarrow> (Inl e, p0, w)
                    | Inr (ok, sem) \<Rightarrow>
                        (if \<not> ok then (Inl (wait_queue_timeout_error p0), p0, w)
                         else get_socket_body w (p0\<lparr>socket_semaphore := sem\<rparr>) t req_state False))))"

text \<open>\<^verbatim>\<open>Pool.start_request\<close>, \<^verbatim>\<open>Pool.in_request\<close> and \<^verbatim>\<open>Pool.end_request\<close>.\<close>

definition start_request :: "pool \<Rightarrow> tid \<Rightarrow> pool" where
  "start_request p t =
     (let p1 = (if get_request_state p t = NO_REQUEST
                then set_request_state p t NO_SOCKET_YET else p)
      in p1\<lparr>request_counter := (request_counter p1)(t := request_counter p1 t + 1)\<rparr>)"

definition in_request :: "pool \<Rightarrow> tid \<Rightarrow> bool" where
  "in_request p t = (request_counter p t \<noteq> 0)"

definition end_request :: "pool \<Rightarrow> tid \<Rightarrow> pool" where
  "end_request p t =
     (let count = request_counter p t
      in if count \<noteq> 0
         then (let p1 = p\<lparr>request_counter := (request_counter p)(t := count - 1)\<rparr>
               in if count = 1
                  then (let sock_info = get_request_state p1 t;
                            p2 = set_request_state p1 t NO_REQUEST
                        in case sock_info of
                             Sock r \<Rightarrow> return_socket p2 r
                           | _ \<Rightarrow> p2)
                  else p1)
         else p)"

text \<open>\<^verbatim>\<open>Pool.maybe_return_socket\<close>, called by thread \<open>t\<close>.\<close>

definition maybe_return_socket :: "world \<Rightarrow> pool \<Rightarrow> tid \<Rightarrow> req_state \<Rightarrow> pool" where
  "maybe_return_socket w p t sock_info =
     (case sock_info of
        Sock r \<Rightarrow>
          (if pid p \<noteq> getpid w
           then reset w (if \<not> forced (heap p r)
                         then p\<lparr>socket_semaphore := release (socket_semaphore p)\<rparr> else p)
           else if closed (heap p r)
           then (if forced (heap p r) then set_forced p r False
                 else if SocketInfo_ne (heap p) r (get_request_state p t)
                 then p\<lparr>socket_semaphore := release (socket_semaphore p)\<rparr>
                 else p)
           else if SocketInfo_ne (heap p) r (get_request_state p t)
           then return_socket p r
           else p)
      | _ \<Rightarrow> p)"

text \<open>
  The hook \<^verbatim>\<open>on_thread_died\<close> that \<^verbatim>\<open>_set_request_state\<close> registers for thread
  \<open>t\<close>.
\<close>

definition on_thread_died :: "pool \<Rightarrow> tid \<Rightarrow> pool" where
  "on_thread_died p t =
     (let request_sock = tid_to_sock p t;
          p1 = p\<lparr>tid_to_sock := (tid_to_sock p)(t := None)\<rparr>
      in case request_sock of
           Some (Sock r) \<Rightarrow> return_socket p1 r
         | _ \<Rightarrow> p1)"


subsection \<open>SocketInfo: the wire and the with-statement\<close>

text \<open>\<^verbatim>\<open>SocketInfo.send_message\<close>: a failing \<^verbatim>\<open>sendall\<close> closes the socket.\<close>

definition SocketInfo_send_message ::
  "world \<Rightarrow> pool \<Rightarrow> ref \<Rightarrow> payload \<Rightarrow> (error + unit) \<times> pool \<times> world" where
  "SocketInfo_send_message w p r message =
     (let s = sock (heap p r);
          w1 = w\<lparr>trace := trace w @ [Send s message]\<rparr>
      in case send_error w s message of
           Some e \<Rightarrow> (Inl e, close p r, w1)
         | None \<Rightarrow> (Inr (), p, w1))"

text \<open>
  \<^verbatim>\<open>SocketInfo.receive_message\<close> for the reply to \<open>message\<close>: any exception (a
  network error, the end of the stream, a failed assertion on the header) closes the
  socket.
\<close>

definition SocketInfo_receive_message ::
  "world \<Rightarrow> pool \<Rightarrow> ref \<Rightarrow> payload \<Rightarrow> (error + bytes) \<times> pool \<times> world" where
  "SocketInfo_receive_message w p r message =
     (let s = sock (heap p r);
          w1 = w\<lparr>trace := trace w @ [Receive s]\<rparr>
      in case respond w s message of
           Inl e \<Rightarrow> (Inl e, close p r, w1)
         | Inr b \<Rightarrow> (Inr b, p, w1))"

text \<open>\<^verbatim>\<open>SocketInfo.__exit__\<close>, in thread \<open>t\<close>.\<close>

definition SocketInfo_exit :: "world \<Rightarrow> pool \<Rightarrow> tid \<Rightarrow> ref \<Rightarrow> pool" where
  "SocketInfo_exit w p t r =
     (if \<not> exhaust (heap p r) \<or> closed (heap p r)
      then maybe_return_socket w p t (Sock r) else p)"

section \<open>mongo_client.py\<close>

subsection \<open>Member\<close>

text \<open>
  Modelled from the spec: \<^verbatim>\<open>pymongo.member\<close> is not among the sources. A member is
  built from the address, the pool made during discovery, the handshake response and the
  round trip: \<^verbatim>\<open>ismaster\<close> and \<^verbatim>\<open>arbiterOnly\<close> give \<open>is_primary\<close> and
  \<open>is_arbiter\<close>, \<^verbatim>\<open>msg == "isdbgrid"\<close> makes it a router, \<^verbatim>\<open>setName\<close> is optional,
  and the size and version fields have the defaults of the specification (16 MiB,
  32 MiB, 1000, 0 and 0). The pool is held by reference: \<open>pool\<close> is its address in
  the client's store of pools. A member is immutable. \<open>Member\<close> below gives the
  fields of a member that has been constructed; whether the constructor raises instead
  is the world's \<open>member_error\<close>.
\<close>

record member =
  host :: node
  pool :: nat
  is_primary :: bool
  is_arbiter :: bool
  is_mongos :: bool
  set_name :: "string option"
  ping_time :: rat
  max_bson_size :: int
  max_message_size :: int
  min_wire_version :: int
  max_wire_version :: int
  max_write_batch_size :: int

definition MAX_BSON_SIZE :: int where "MAX_BSON_SIZE = 16 * 1024 * 1024"
definition MAX_MESSAGE_SIZE :: int where "MAX_MESSAGE_SIZE = 32 * 1024 * 1024"
definition MAX_WRITE_BATCH_SIZE :: int where "MAX_WRITE_BATCH_SIZE = 1000"
definition MIN_WIRE_VERSION :: int where "MIN_WIRE_VERSION = 0"
definition MAX_WIRE_VERSION :: int where "MAX_WIRE_VERSION = 0"

definition get_bool :: "document \<Rightarrow> string \<Rightarrow> bool" where
  "get_bool d k = (map_of d k = Some (BBool True))"

definition get_int :: "document \<Rightarrow> string \<Rightarrow> int \<Rightarrow> int" where
  "get_int d k dflt = (case map_of d k of Some (BInt n) \<Rightarrow> n | _ \<Rightarrow> dflt)"

definition Member :: "node \<Rightarrow> nat \<Rightarrow> document \<Rightarrow> rat \<Rightarrow> member" where
  "Member address pl ismaster_response ping =
     \<lparr>host = address,
      pool = pl,
      is_primary = get_bool ismaster_response ''ismaster'',
      is_arbiter = get_bool ismaster_response ''arbiterOnly'',
      is_mongos = (map_of ismaster_response ''msg'' = Some (BStr ''isdbgrid'')),
      set_name = (case map_of ismaster_response ''setName'' of
                    Some (BStr n) \<Rightarrow> Some n | _ \<Rightarrow> None),
      ping_time = ping,
      max_bson_size = get_int ismaster_response ''maxBsonObjectSize'' MAX_BSON_SIZE,
      max_message_size = get_int ismaster_response ''maxMessageSizeBytes'' MAX_MESSAGE_SIZE,
      min_wire_version = get_int ismaster_response ''minWireVersion'' MIN_WIRE_VERSION,
      max_wire_version = get_int ismaster_response ''maxWireVersion'' MAX_WIRE_VERSION,
      max_write_batch_size =
        get_int ismaster_response ''maxWriteBatchSize'' MAX_WRITE_BATCH_SIZE\<rparr>"

subsection \<open>The client's state\<close>

text \<open>
  Modelled from the spec: \<^verbatim>\<open>thread_util.Future\<close> is not among the sources. A future
  is pending until \<^verbatim>\<open>set_result\<close> or \<^verbatim>\<open>set_exception\<close> resolves it;
  \<^verbatim>\<open>result()\<close> waits for that and returns the member or raises the exception.
\<close>

datatype future = Pending | Result member | Exception error

text \<open>
  The fields of \<^verbatim>\<open>MongoClient\<close> that discovery and sending read or write. The frozen
  sets \<open>seeds\<close> and \<open>nodes\<close> are lists without duplicates, in the order in which a loop
  over the set visits them. \<open>repl\<close> is the replica-set name, \<open>future_member\<close> is
  \<^verbatim>\<open>None\<close> before the first resolution, \<open>auth_credentials\<close> is the dictionary from
  the source to the credential, \<open>latency_threshold_ms\<close> belongs to the read preference.
  \<open>pools\<close> is the store of the \<^verbatim>\<open>Pool\<close> objects the client has created and
  \<open>next_pool\<close> the next free address in it.
\<close>

record client =
  seeds :: "node list"
  nodes :: "node list"
  member :: "member option"
  repl :: "string option"
  direct :: bool
  pool_opts :: pool_options
  connecting :: bool
  future_member :: "future option"
  auto_start_request :: bool
  auth_credentials :: "(string \<times> credential) list"
  latency_threshold_ms :: rat
  pools :: "nat \<Rightarrow> pool"
  next_pool :: nat

text \<open>The truth value of an optional string: \<^verbatim>\<open>None\<close> and \<^verbatim>\<open>""\<close> are false.\<close>

fun truthy :: "string option \<Rightarrow> bool" where
  "truthy None = False"
| "truthy (Some s) = (s \<noteq> [])"

text \<open>
  \<^verbatim>\<open>__member_property\<close> for the two properties the modelled code reads.
\<close>

definition client_is_primary :: "client \<Rightarrow> bool" where
  "client_is_primary c = (case member c of Some m \<Rightarrow> is_primary m | None \<Rightarrow> False)"

definition client_max_bson_size :: "client \<Rightarrow> int" where
  "client_max_bson_size c =
     (case member c of Some m \<Rightarrow> max_bson_size m | None \<Rightarrow> MAX_BSON_SIZE)"

text \<open>\<^verbatim>\<open>MongoClient.disconnect\<close>.\<close>

definition disconnect :: "world \<Rightarrow> client \<Rightarrow> client" where
  "disconnect w c =
     (case member c of
        None \<Rightarrow> c
      | Some m \<Rightarrow> c\<lparr>member := None,
                     pools := (pools c)(pool m := reset w (pools c (pool m)))\<rparr>)"

subsection \<open>Commands\<close>

text \<open>
  \<^verbatim>\<open>__simple_command\<close> on the socket at \<open>r\<close> of pool \<open>p\<close>; it passes no
  \<^verbatim>\<open>reset\<close> callback to \<^verbatim>\<open>_check_command_response\<close>.
\<close>

definition simple_command ::
  "world \<Rightarrow> pool \<Rightarrow> ref \<Rightarrow> string \<Rightarrow> document \<Rightarrow> (error + document \<times> rat) \<times> pool \<times> world" where
  "simple_command w p r dbname spec =
     (let message = Query (dbname @ ''.$cmd'') spec in
      case SocketInfo_send_message w p r message of
        (Inl e, p1, w1) \<Rightarrow> (Inl e, p1, w1)
      | (Inr u, p1, w1) \<Rightarrow>
          (case SocketInfo_receive_message w1 p1 r message of
             (Inl e, p2, w2) \<Rightarrow> (Inl e, p2, w2)
           | (Inr b, p2, w2) \<Rightarrow>
               (case unpack_response w2 b of
                  Inl e \<Rightarrow> (Inl e, p2, w2)
                | Inr unpacked \<Rightarrow>
                    (case data unpacked of
                       [] \<Rightarrow> (Inl IndexError, p2, w2)
                     | response # rest \<Rightarrow>
                         (case check_command_response w2 response of
                            Some (call_reset, e) \<Rightarrow> (Inl e, p2, w2)
                          | None \<Rightarrow>
                              (Inr (response, round_trip w2 (sock (heap p2 r))), p2, w2))))))"

subsection \<open>Discovery\<close>

text \<open>\<^verbatim>\<open>str.rfind\<close> of a character.\<close>

definition rfind :: "char \<Rightarrow> string \<Rightarrow> nat option" where
  "rfind ch s =
     (if ch \<in> set s
      then Some (length s - 1 - length (takeWhile (\<lambda>x. x \<noteq> ch) (rev s)))
      else None)"

text \<open>
  \<^verbatim>\<open>_partition_node\<close>. A value that is not a string has no \<^verbatim>\<open>rfind\<close>.
\<close>

definition partition_node :: "world \<Rightarrow> bson \<Rightarrow> error + node" where
  "partition_node w nd =
     (case nd of
        BStr s \<Rightarrow>
          (let strip = (\<lambda>h. if h \<noteq> [] \<and> hd h = CHR ''['' then butlast (tl h) else h) in
           case rfind CHR '':'' s of
             None \<Rightarrow> Inr (strip s, 27017)
           | Some idx \<Rightarrow>
               (case int_of_str w (drop (idx + 1) s) of
                  None \<Rightarrow> Inl ValueError
                | Some port \<Rightarrow> Inr (strip (take idx s), port)))
      | _ \<Rightarrow> Inl AttributeError)"

text \<open>
  What a \<^verbatim>\<open>for\<close> loop over a value visits: the elements of an array, the characters
  of a string, the keys of a document; the other values are not iterable.
\<close>

fun py_iter :: "bson \<Rightarrow> error + bson list" where
  "py_iter (BArray xs) = Inr xs"
| "py_iter (BStr s) = Inr (map (\<lambda>ch. BStr [ch]) s)"
| "py_iter (BDoc d) = Inr (map (\<lambda>kv. BStr (fst kv)) d)"
| "py_iter v = Inl TypeError"

text \<open>The list comprehension \<^verbatim>\<open>[_partition_node(h) for h in hs]\<close>.\<close>

fun partition_nodes :: "world \<Rightarrow> bson list \<Rightarrow> error + node list" where
  "partition_nodes w [] = Inr []"
| "partition_nodes w (h # hs) =
     (case partition_node w h of
        Inl e \<Rightarrow> Inl e
      | Inr nd \<Rightarrow> (case partition_nodes w hs of Inl e \<Rightarrow> Inl e | Inr nds \<Rightarrow> Inr (nd # nds)))"

text \<open>
  The first statements of \<^verbatim>\<open>__try_node\<close>: a new pool for the node, a socket from it,
  the \<^verbatim>\<open>ismaster\<close> command within the with-statement. The result is the response and
  the round trip; the new pool is at the address that was \<open>next_pool\<close>.
\<close>

definition call_ismaster ::
  "world \<Rightarrow> client \<Rightarrow> tid \<Rightarrow> node \<Rightarrow> (error + document \<times> rat) \<times> client \<times> world" where
  "call_ismaster w c t nd =
     (let pr = next_pool c;
          connection_pool = Pool w nd (pool_opts c);
          c0 = c\<lparr>next_pool := Suc pr\<rparr>
      in case get_socket w connection_pool t False of
           (Inl e, p1, w1) \<Rightarrow> (Inl e, c0\<lparr>pools := (pools c0)(pr := p1)\<rparr>, w1)
         | (Inr sock_info, p1, w1) \<Rightarrow>
             (case simple_command w1 p1 sock_info ''admin'' [(''ismaster'', BInt 1)] of
                (res, p2, w2) \<Rightarrow>
                  (res, c0\<lparr>pools := (pools c0)(pr := SocketInfo_exit w2 p2 t sock_info)\<rparr>, w2)))"

text \<open>
  \<^verbatim>\<open>__try_node\<close>, in thread \<open>t\<close>. The first argument bounds the depth of the
  recursion, as Python's recursion limit does: beyond it the call raises
  \<^verbatim>\<open>RuntimeError\<close>. The member is constructed right after the handshake, before
  the mode of the client is looked at, and the constructor may raise.
\<close>

fun try_node ::
  "nat \<Rightarrow> world \<Rightarrow> client \<Rightarrow> tid \<Rightarrow> node \<Rightarrow> (error + member \<times> node list) \<times> client \<times> world" where
  "try_node 0 w c t nd = (Inl RuntimeError, c, w)"
| "try_node (Suc depth) w c t nd =
     (case call_ismaster w c t nd of
        (Inl e, c1, w1) \<Rightarrow> (Inl e, c1, w1)
      | (Inr (response, res_time), c1, w1) \<Rightarrow>
          (case member_error w1 response of
             Some e \<Rightarrow> (Inl e, c1, w1)
           | None \<Rightarrow>
          (let mem = Member nd (next_pool c) response res_time in
           if \<not> direct c1
           then (if truthy (repl c1) \<and> set_name mem \<noteq> repl c1
                 then (Inl (ConfigurationError
                         [S (fst nd), S '':'', D (snd nd), S '' is not a member of replica set '',
                          S (case repl c1 of Some n \<Rightarrow> n | None \<Rightarrow> [])]), c1, w1)
                 else (case (case map_of response ''hosts'' of
                               None \<Rightarrow> Inr [nd]
                             | Some hs \<Rightarrow>
                                 (case py_iter hs of
                                    Inl e \<Rightarrow> Inl e
                                  | Inr hl \<Rightarrow>
                                      (case partition_nodes w1 hl of
                                         Inl e \<Rightarrow> Inl e
                                       | Inr nds \<Rightarrow> Inr (remdups nds)))) of
                         Inl e \<Rightarrow> (Inl e, c1, w1)
                       | Inr nds \<Rightarrow>
                           (if is_primary mem then (Inr (mem, nds), c1, w1)
                            else (case map_of response ''primary'' of
                                    Some pv \<Rightarrow>
                                      (case partition_node w1 pv of
                                         Inl e \<Rightarrow> (Inl e, c1, w1)
                                       | Inr candidate \<Rightarrow> try_node depth w1 c1 t candidate)
                                  | None \<Rightarrow>
                                      (Inl (AutoReconnect
                                         [S (fst nd), S '':'', D (snd nd),
                                          S '' is not primary or master'']), c1, w1)))))
           else if is_arbiter mem \<and> \<not> direct c1
           then (Inl (ConfigurationError
                   [S (fst nd), S '':'', D (snd nd), S '' is an arbiter'']), c1, w1)
           else (Inr (mem, [nd]), c1, w1))))"

text \<open>\<^verbatim>\<open>__pick_nearest\<close>; the latency threshold is in milliseconds, the pings in seconds.\<close>

definition pick_nearest :: "world \<Rightarrow> client \<Rightarrow> member list \<Rightarrow> error + member" where
  "pick_nearest w c candidates =
     (case candidates of
        [] \<Rightarrow> Inl ValueError
      | m # ms \<Rightarrow>
          (let latency = latency_threshold_ms c;
               fastest = fold min (map ping_time ms) (ping_time m);
               near_candidates =
                 filter (\<lambda>x. ping_time x - fastest < latency / 1000) candidates
           in if near_candidates = [] then Inl IndexError
              else Inr (near_candidates !
                         (random_index w (length near_candidates) mod length near_candidates))))"

text \<open>\<^verbatim>\<open>', '.join(errors)\<close>.\<close>

fun join :: "msg \<Rightarrow> msg list \<Rightarrow> msg" where
  "join sep [] = []"
| "join sep [x] = x"
| "join sep (x # y # ys) = x @ sep @ join sep (y # ys)"

text \<open>The error that \<^verbatim>\<open>__find_node\<close> raises for a mixed seed list.\<close>

definition mixed_seed_list_error :: error where
  "mixed_seed_list_error =
     ConfigurationError [S ''Seed list cannot contain a mix of mongod and mongos instances.'']"

text \<open>
  The loop of \<^verbatim>\<open>__find_node\<close> over the candidates still to visit, with the errors and
  the routers collected so far. It ends with the chosen member and its nodes (after
  \<^verbatim>\<open>break\<close>) or with none (the candidates are used up), or it raises.
\<close>

fun find_node_loop ::
  "nat \<Rightarrow> tid \<Rightarrow> node list \<Rightarrow> msg list \<Rightarrow> member list \<Rightarrow> client \<Rightarrow> world \<Rightarrow>
   (error + (member \<times> node list) option \<times> msg list \<times> member list) \<times> client \<times> world" where
  "find_node_loop depth t [] errors mongos_candidates c w =
     (Inr (None, errors, mongos_candidates), c, w)"
| "find_node_loop depth t (candidate # rest) errors mongos_candidates c w =
     (case try_node depth w c t candidate of
        (Inr (mem, nds), c1, w1) \<Rightarrow>
          (if is_mongos mem \<and> \<not> direct c1
           then find_node_loop depth t rest errors (mongos_candidates @ [mem]) c1 w1
           else if mongos_candidates \<noteq> []
           then (Inl mixed_seed_list_error, c1, w1)
           else (Inr (Some (mem, nds), errors, mongos_candidates), c1, w1))
      | (Inl e, c1, w1) \<Rightarrow>
          (if is_OperationFailure e \<or> is_ConfigurationError e \<or> e = ValueError
           then (Inl e, c1, w1)
           else if is_Exception e
           then find_node_loop depth t rest (errors @ [str e]) mongos_candidates c1 w1
           else (Inl e, c1, w1)))"

text \<open>\<^verbatim>\<open>self.__nodes or self.__seeds\<close>.\<close>

definition candidates :: "client \<Rightarrow> node list" where
  "candidates c = (if nodes c \<noteq> [] then nodes c else seeds c)"

text \<open>\<^verbatim>\<open>__find_node\<close>.\<close>

definition find_node ::
  "nat \<Rightarrow> world \<Rightarrow> client \<Rightarrow> tid \<Rightarrow> (error + member \<times> node list) \<times> client \<times> world" where
  "find_node depth w c t =
     (if member c \<noteq> None then (Inl AssertionError, c, w)
      else case find_node_loop depth t (candidates c) [] [] c w of
             (Inl e, c1, w1) \<Rightarrow> (Inl e, c1, w1)
           | (Inr (chosen_member, errors, mongos_candidates), c1, w1) \<Rightarrow>
               (if mongos_candidates \<noteq> []
                then (case pick_nearest w1 c1 mongos_candidates of
                        Inl e \<Rightarrow> (Inl e, c1, w1)
                      | Inr m \<Rightarrow>
                          (Inr (m, if nodes c1 \<noteq> [] then nodes c1
                                   else remdups (map host mongos_candidates)), c1, w1))
                else (case chosen_member of
                        None \<Rightarrow> (Inl (AutoReconnect (join [S '', ''] errors)), c1, w1)
                      | Some (m, discovered_nodes) \<Rightarrow> (Inr (m, discovered_nodes), c1, w1))))"

text \<open>
  \<^verbatim>\<open>__ensure_member\<close>. A caller that finds a resolution in progress waits on the
  future. Otherwise the client is marked as \<open>resolving\<close> while \<^verbatim>\<open>__find_node\<close>
  runs. The \<^verbatim>\<open>finally\<close> block installs the outcome; it does not run when
  \<^verbatim>\<open>__find_node\<close> never returns.
\<close>

definition resolving :: "client \<Rightarrow> client" where
  "resolving c = c\<lparr>connecting := True, future_member := Some Pending\<rparr>"

definition ensure_member ::
  "nat \<Rightarrow> world \<Rightarrow> client \<Rightarrow> tid \<Rightarrow> (error + member) \<times> client \<times> world" where
  "ensure_member depth w c t =
     (case member c of
        Some m \<Rightarrow> (Inr m, c, w)
      | None \<Rightarrow>
          (if connecting c
           then (case future_member c of
                   None \<Rightarrow> (Inl AttributeError, c, w)
                 | Some Pending \<Rightarrow> (Inl Blocks_forever, c, w)
                 | Some (Result m) \<Rightarrow> (Inr m, c, w)
                 | Some (Exception e) \<Rightarrow> (Inl e, c, w))
           else (case find_node depth w (resolving c) t of
                   (Inr (m, nds), c1, w1) \<Rightarrow>
                     (Inr m,
                      c1\<lparr>member := Some m, connecting := False,
                         nodes := (if nds \<noteq> [] then nds else nodes c1),
                         future_member := Some (Result m)\<rparr>,
                      w1)
                 | (Inl e, c1, w1) \<Rightarrow>
                     (if is_Exception e
                      then (Inl e,
                            c1\<lparr>member := None, connecting := False,
                               future_member := Some (Exception e)\<rparr>,
                            w1)
                      else (Inl e, c1, w1)))))"

subsection \<open>Authentication\<close>

text \<open>
  Modelled from the spec: \<^verbatim>\<open>auth.authenticate\<close> is not among the sources. The
  authentication handshake is a command on the credential's source, sent through
  \<^verbatim>\<open>__simple_command\<close>.
\<close>

definition authenticate ::
  "world \<Rightarrow> pool \<Rightarrow> ref \<Rightarrow> credential \<Rightarrow> (error + unit) \<times> pool \<times> world" where
  "authenticate w p r credentials =
     (case credentials of
        (mechanism, source, username, password) \<Rightarrow>
          (case simple_command w p r source
                  [(''authenticate'', BInt 1), (''mechanism'', BStr mechanism),
                   (''user'', BStr username), (''pwd'', BStr password)] of
             (Inl e, p1, w1) \<Rightarrow> (Inl e, p1, w1)
           | (Inr res, p1, w1) \<Rightarrow> (Inr (), p1, w1)))"

text \<open>The two loops of \<^verbatim>\<open>__check_auth\<close>, over the credentials still to visit.\<close>

fun logout_loop ::
  "world \<Rightarrow> pool \<Rightarrow> ref \<Rightarrow> credential list \<Rightarrow> (error + unit) \<times> pool \<times> world" where
  "logout_loop w p r [] = (Inr (), p, w)"
| "logout_loop w p r (credentials # rest) =
     (case simple_command w p r (fst (snd credentials)) [(''logout'', BInt 1)] of
        (Inl e, p1, w1) \<Rightarrow> (Inl e, p1, w1)
      | (Inr res, p1, w1) \<Rightarrow>
          logout_loop w1
            (p1\<lparr>heap := (heap p1)(r := (heap p1 r)
                   \<lparr>authset := removeAll credentials (authset (heap p1 r))\<rparr>)\<rparr>) r rest)"

fun authenticate_loop ::
  "world \<Rightarrow> pool \<Rightarrow> ref \<Rightarrow> credential list \<Rightarrow> (error + unit) \<times> pool \<times> world" where
  "authenticate_loop w p r [] = (Inr (), p, w)"
| "authenticate_loop w p r (credentials # rest) =
     (case authenticate w p r credentials of
        (Inl e, p1, w1) \<Rightarrow> (Inl e, p1, w1)
      | (Inr u, p1, w1) \<Rightarrow>
          authenticate_loop w1
            (p1\<lparr>heap := (heap p1)(r := (heap p1 r)
                   \<lparr>authset := List.insert credentials (authset (heap p1 r))\<rparr>)\<rparr>) r rest)"

text \<open>\<^verbatim>\<open>__check_auth\<close> on the socket at \<open>r\<close> of pool \<open>p\<close>.\<close>

definition check_auth ::
  "world \<Rightarrow> client \<Rightarrow> pool \<Rightarrow> ref \<Rightarrow> (error + unit) \<times> pool \<times> world" where
  "check_auth w c p r =
     (if auth_credentials c \<noteq> [] \<or> authset (heap p r) \<noteq> []
      then (let cached = remdups (map snd (auth_credentials c));
                authset0 = authset (heap p r)
            in case logout_loop w p r (filter (\<lambda>x. x \<notin> set cached) authset0) of
                 (Inl e, p1, w1) \<Rightarrow> (Inl e, p1, w1)
               | (Inr u, p1, w1) \<Rightarrow>
                   authenticate_loop w1 p1 r (filter (\<lambda>x. x \<notin> set authset0) cached))
      else (Inr (), p, w))"

subsection \<open>Sending\<close>

text \<open>\<^verbatim>\<open>__socket\<close>, in thread \<open>t\<close>.\<close>

definition socket ::
  "world \<Rightarrow> client \<Rightarrow> tid \<Rightarrow> member \<Rightarrow> (error + ref) \<times> client \<times> world" where
  "socket w c t mem =
     (let pr = pool mem;
          connection_pool = pools c pr;
          p0 = (if auto_start_request c \<and> \<not> in_request connection_pool t
                then start_request connection_pool t else connection_pool)
      in case get_socket w p0 t False of
           (Inl why, p1, w1) \<Rightarrow>
             (let c1 = c\<lparr>pools := (pools c)(pr := p1)\<rparr> in
              if is_socket_error why
              then (Inl (AutoReconnect
                      ([S ''could not connect to '', S (fst (host mem)), S '':'']
                       @ (if suffix ''.sock'' (fst (host mem)) then []
                          else [D (snd (host mem)), S '':''])
                       @ [S '' ''] @ str why)),
                    disconnect w1 c1, w1)
              else (Inl why, c1, w1))
         | (Inr sock_info, p1, w1) \<Rightarrow>
             (case check_auth w1 c p1 sock_info of
                (Inl e, p2, w2) \<Rightarrow>
                  (Inl e,
                   c\<lparr>pools := (pools c)
                        (pr := (if is_OperationFailure e
                                then maybe_return_socket w2 p2 t (Sock sock_info) else p2))\<rparr>,
                   w2)
              | (Inr u, p2, w2) \<Rightarrow> (Inr sock_info, c\<lparr>pools := (pools c)(pr := p2)\<rparr>, w2)))"

text \<open>
  A message is the tuple \<^verbatim>\<open>(request_id, data)\<close> or
  \<^verbatim>\<open>(request_id, data, max_doc_size)\<close>.
\<close>

datatype message = Msg2 int bytes | Msg3 int bytes int

text \<open>\<^verbatim>\<open>__check_bson_size\<close>.\<close>

definition document_too_large :: "int \<Rightarrow> int \<Rightarrow> error" where
  "document_too_large max_doc_size limit =
     DocumentTooLarge
       [S ''BSON document too large ('', D max_doc_size,
        S '' bytes) - the connected server supports BSON document sizes up to '',
        D limit, S '' bytes.'']"

fun check_bson_size :: "client \<Rightarrow> message \<Rightarrow> error + int \<times> bytes" where
  "check_bson_size c (Msg3 request_id dat max_doc_size) =
     (if max_doc_size > client_max_bson_size c
      then Inl (document_too_large max_doc_size (client_max_bson_size c))
      else Inr (request_id, dat))"
| "check_bson_size c (Msg2 request_id dat) = Inr (request_id, dat)"

text \<open>
  The loop of \<^verbatim>\<open>__check_response_to_last_error\<close> over \<^verbatim>\<open>errObjects\<close>: the first
  object whose \<^verbatim>\<open>err\<close> is the error message replaces the details. An element that is
  not a document has no \<^verbatim>\<open>get\<close>.
\<close>

fun errobj_loop :: "string \<Rightarrow> document \<Rightarrow> bson list \<Rightarrow> error + document" where
  "errobj_loop error_msg details [] = Inr details"
| "errobj_loop error_msg details (BDoc errobj # rest) =
     (if map_of errobj ''err'' = Some (BStr error_msg) then Inr errobj
      else errobj_loop error_msg details rest)"
| "errobj_loop error_msg details (v # rest) = Inl AttributeError"

text \<open>
  The \<^verbatim>\<open>details\<close> of \<^verbatim>\<open>__check_response_to_last_error\<close>: the reply itself, or
  the object that the loop over \<^verbatim>\<open>errObjects\<close> finds.
\<close>

definition last_error_details :: "string \<Rightarrow> document \<Rightarrow> error + document" where
  "last_error_details error_msg result =
     (case map_of result ''errObjects'' of
        None \<Rightarrow> Inr result
      | Some objs \<Rightarrow>
          (case py_iter objs of
             Inl e \<Rightarrow> Inl e
           | Inr os \<Rightarrow> errobj_loop error_msg result os))"

text \<open>\<^verbatim>\<open>code in (11000, 11001, 12582)\<close>; \<^verbatim>\<open>True\<close> is \<^verbatim>\<open>1\<close> and \<^verbatim>\<open>False\<close> is \<^verbatim>\<open>0\<close>.\<close>

definition duplicate_key_code :: "bson option \<Rightarrow> bool" where
  "duplicate_key_code code = (code \<in> {Some (BInt 11000), Some (BInt 11001), Some (BInt 12582)})"

text \<open>\<^verbatim>\<open>__check_response_to_last_error\<close>.\<close>

definition check_response_to_last_error ::
  "world \<Rightarrow> client \<Rightarrow> bytes \<Rightarrow> bool \<Rightarrow> (error + document) \<times> client" where
  "check_response_to_last_error w c resp is_command =
     (case unpack_response w resp of
        Inl e \<Rightarrow> (Inl e, c)
      | Inr unpacked \<Rightarrow>
          (if number_returned unpacked \<noteq> 1 then (Inl AssertionError, c)
           else case data unpacked of
                  [] \<Rightarrow> (Inl IndexError, c)
                | result # others \<Rightarrow>
                    (case check_command_response w result of
                       Some (call_reset, e) \<Rightarrow>
                         (Inl e, if call_reset then disconnect w c else c)
                     | None \<Rightarrow>
                         (if is_command then (Inr result, c)
                          else case (case map_of result ''err'' of
                                       None \<Rightarrow> BStr [] | Some v \<Rightarrow> v) of
                                 BNull \<Rightarrow> (Inr result, c)
                               | BStr error_msg \<Rightarrow>
                                   (if prefix ''not master'' error_msg
                                    then (Inl (AutoReconnect [S error_msg]), disconnect w c)
                                    else case last_error_details error_msg result of
                                           Inl e \<Rightarrow> (Inl e, c)
                                         | Inr details \<Rightarrow>
                                             (let code = map_of details ''code'' in
                                              case map_of details ''err'' of
                                                None \<Rightarrow> (Inl KeyError, c)
                                              | Some err \<Rightarrow>
                                                  (if duplicate_key_code code
                                                   then (Inl (DuplicateKeyError [S error_msg] code), c)
                                                   else (Inl (OperationFailure [S error_msg] code), c))))
                               | v \<Rightarrow> (Inl AttributeError, c)))))"

text \<open>
  The \<^verbatim>\<open>try\<close> statement of \<^verbatim>\<open>_send_message\<close> with its handlers, on the socket
  \<open>sock_info\<close> of the member's pool.
\<close>

definition send_message_handlers :: "world \<Rightarrow> error \<Rightarrow> client \<Rightarrow> error \<times> client" where
  "send_message_handlers w e c =
     (if is_OperationFailure e then (e, c)
      else if is_ConnectionFailure e \<or> is_socket_error e
      then (AutoReconnect (str e), disconnect w c)
      else (e, c))"

definition send_message_try ::
  "world \<Rightarrow> client \<Rightarrow> member \<Rightarrow> ref \<Rightarrow> message \<Rightarrow> bool \<Rightarrow> bool \<Rightarrow>
   (error + document option) \<times> client \<times> world" where
  "send_message_try w c mem sock_info message with_last_error command =
     (let pr = pool mem;
          raise = (\<lambda>e c' w'. (case send_message_handlers w' e c' of (e', c'') \<Rightarrow> (Inl e', c'', w')))
      in case check_bson_size c message of
           Inl e \<Rightarrow> raise e c w
         | Inr (request_id, dat) \<Rightarrow>
             (case SocketInfo_send_message w (pools c pr) sock_info (Data dat) of
                (Inl e, p1, w1) \<Rightarrow> raise e (c\<lparr>pools := (pools c)(pr := p1)\<rparr>) w1
              | (Inr u, p1, w1) \<Rightarrow>
                  (let c1 = c\<lparr>pools := (pools c)(pr := p1)\<rparr> in
                   if with_last_error
                   then (case SocketInfo_receive_message w1 p1 sock_info (Data dat) of
                           (Inl e, p2, w2) \<Rightarrow> raise e (c1\<lparr>pools := (pools c1)(pr := p2)\<rparr>) w2
                         | (Inr resp, p2, w2) \<Rightarrow>
                             (case check_response_to_last_error w2
                                     (c1\<lparr>pools := (pools c1)(pr := p2)\<rparr>) resp command of
                                (Inl e, c2) \<Rightarrow> raise e c2 w2
                              | (Inr rv, c2) \<Rightarrow> (Inr (Some rv), c2, w2)))
                   else (Inr None, c1, w1))))"

text \<open>\<^verbatim>\<open>_send_message\<close>, in thread \<open>t\<close>.\<close>

definition send_message ::
  "nat \<Rightarrow> world \<Rightarrow> client \<Rightarrow> tid \<Rightarrow> message \<Rightarrow> bool \<Rightarrow> bool \<Rightarrow> bool \<Rightarrow>
   (error + document option) \<times> client \<times> world" where
  "send_message depth w c t message with_last_error command check_primary =
     (case ensure_member depth w c t of
        (Inl e, c1, w1) \<Rightarrow> (Inl e, c1, w1)
      | (Inr mem, c1, w1) \<Rightarrow>
          (if check_primary \<and> \<not> with_last_error \<and> \<not> client_is_primary c1
           then (Inl (AutoReconnect [S ''not master'']), c1, w1)
           else case socket w1 c1 t mem of
                  (Inl e, c2, w2) \<Rightarrow> (Inl e, c2, w2)
                | (Inr sock_info, c2, w2) \<Rightarrow>
                    (case send_message_try w2 c2 mem sock_info message with_last_error command of
                       (res, c3, w3) \<Rightarrow>
                         (res,
                          c3\<lparr>pools := (pools c3)
                               (pool mem := SocketInfo_exit w3 (pools c3 (pool mem)) t sock_info)\<rparr>,
                          w3))))"


section \<open>Runs, invariants and example states\<close>

subsection \<open>Runs of one pool\<close>

text \<open>
  The operations of a pool that its callers and the runtime invoke, each in the world it
  finds at that moment: the world may change in any way between two operations.
  \<open>Thread_died\<close> is the hook for a thread that died, \<open>Close_socket\<close> is
  \<^verbatim>\<open>SocketInfo.close\<close>, which the socket calls on itself when sending or receiving fails.
\<close>

datatype pool_op =
    Reset
  | Get_socket tid bool
  | Start_request tid
  | End_request tid
  | Maybe_return_socket tid req_state
  | Thread_died tid
  | Close_socket ref

fun step :: "pool \<Rightarrow> world \<times> pool_op \<Rightarrow> pool" where
  "step p (w, Reset) = reset w p"
| "step p (w, Get_socket t force) = fst (snd (get_socket w p t force))"
| "step p (w, Start_request t) = start_request p t"
| "step p (w, End_request t) = end_request p t"
| "step p (w, Maybe_return_socket t s) = maybe_return_socket w p t s"
| "step p (w, Thread_died t) = on_thread_died p t"
| "step p (w, Close_socket r) = close p r"

definition run :: "pool \<Rightarrow> (world \<times> pool_op) list \<Rightarrow> pool" where
  "run p ops = foldl step p ops"

text \<open>Every idle socket was created under the pool's current \<^verbatim>\<open>pool_id\<close>.\<close>

definition idle_generation :: "pool \<Rightarrow> bool" where
  "idle_generation p = (\<forall>r \<in> set (sockets p). si_pool_id (heap p r) = pool_id p)"

text \<open>
  The request state of thread \<open>t\<close> agrees with its counter: the counter is not negative,
  a thread outside a request has no entry in \<^verbatim>\<open>_tid_to_sock\<close>, and a thread inside a
  request has the placeholder or a socket there.
\<close>

definition request_consistent :: "pool \<Rightarrow> tid \<Rightarrow> bool" where
  "request_consistent p t =
     (0 \<le> request_counter p t \<and>
      (if request_counter p t = 0 then tid_to_sock p t = None
       else get_request_state p t \<noteq> NO_REQUEST))"

subsection \<open>Changes of the client that only touch its pools\<close>

definition only_pools :: "client \<Rightarrow> client \<Rightarrow> bool" where
  "only_pools c c' =
     (seeds c' = seeds c \<and> nodes c' = nodes c \<and> member c' = member c \<and> repl c' = repl c \<and>
      direct c' = direct c \<and> pool_opts c' = pool_opts c \<and> connecting c' = connecting c \<and>
      future_member c' = future_member c \<and> auto_start_request c' = auto_start_request c \<and>
      auth_credentials c' = auth_credentials c \<and>
      latency_threshold_ms c' = latency_threshold_ms c)"

subsection \<open>Example states\<close>

text \<open>
  A world in which every connection succeeds, every command is answered with
  \<^verbatim>\<open>{ok: 1}\<close> and every member can be constructed, and a pool of at most 100 sockets
  for \<^verbatim>\<open>localhost:27017\<close>.
\<close>

definition example_world :: world where
  "example_world =
     \<lparr>getpid = 1, now = 0, connect_error = (\<lambda>n. None),
      send_error = (\<lambda>s m. None), respond = (\<lambda>s m. Inr []),
      round_trip = (\<lambda>s. 0), select_readable = (\<lambda>s. False),
      unpack_response = (\<lambda>b. Inr \<lparr>number_returned = 1, data = [[(''ok'', BInt 1)]]\<rparr>),
      check_command_response = (\<lambda>d. None),
      member_error = (\<lambda>d. None),
      int_of_str = (\<lambda>s. None), random_index = (\<lambda>n. 0),
      next_socket = 0, trace = []\<rparr>"

definition example_options :: pool_options where
  "example_options = \<lparr>max_pool_size = Some 100, wait_queue_timeout = None,
     wait_queue_multiple = None\<rparr>"

definition example_pool :: pool where
  "example_pool = Pool example_world (''localhost'', 27017) example_options"

text \<open>
  Thread 0 starts a request and takes a socket, which becomes its request socket.
\<close>

definition bound_request_pool :: pool where
  "bound_request_pool =
     run example_pool
       [(example_world, Start_request 0),
        (example_world, Get_socket 0 False)]"

text \<open>
  Then the socket is closed by a network error, and the with-statement hands it to
  \<^verbatim>\<open>maybe_return_socket\<close>.
\<close>

definition closed_request_pool :: pool where
  "closed_request_pool =
     run bound_request_pool
       [(example_world, Close_socket 0),
        (example_world, Maybe_return_socket 0 (Sock 0))]"

text \<open>
  A client made for the single seed \<^verbatim>\<open>localhost:27017\<close> with no replica-set name,
  hence direct, before its first resolution; and a client made for a seed list.
\<close>

definition direct_client :: client where
  "direct_client =
     \<lparr>seeds = [(''localhost'', 27017)], nodes = [], member = None, repl = None,
      direct = True, pool_opts = example_options, connecting = False,
      future_member = None, auto_start_request = False, auth_credentials = [],
      latency_threshold_ms = 15, pools = (\<lambda>a. example_pool), next_pool = 0\<rparr>"

definition seed_list_client :: "node list \<Rightarrow> client" where
  "seed_list_client sl = direct_client\<lparr>seeds := sl, direct := False\<rparr>"

text \<open>Handshake responses of an arbiter, of a primary mongod and of a router.\<close>

definition arbiter_response :: document where
  "arbiter_response =
     [(''ismaster'', BBool False), (''arbiterOnly'', BBool True), (''setName'', BStr ''rs''),
      (''ok'', BInt 1)]"

definition mongod_response :: document where
  "mongod_response = [(''ismaster'', BBool True), (''ok'', BInt 1)]"

definition mongos_response :: document where
  "mongos_response = [(''ismaster'', BBool True), (''msg'', BStr ''isdbgrid''), (''ok'', BInt 1)]"

text \<open>A world in which every server answers as an arbiter.\<close>

definition arbiter_world :: world where
  "arbiter_world =
     example_world\<lparr>unpack_response :=
       (\<lambda>b. Inr \<lparr>number_returned = 1, data = [arbiter_response]\<rparr>)\<rparr>"

text \<open>
  The same world for a driver that does not support the wire protocol of these servers,
  so that constructing a member raises.
\<close>

definition incompatible_wire_error :: error where
  "incompatible_wire_error = ConfigurationError [S ''incompatible wire protocol'']"

definition incompatible_world :: world where
  "incompatible_world =
     arbiter_world\<lparr>member_error := (\<lambda>d. Some incompatible_wire_error)\<rparr>"

text \<open>A world in which \<^verbatim>\<open>b:2\<close> is a router and every other server a primary mongod.\<close>

definition mixed_world :: world where
  "mixed_world =
     example_world\<lparr>respond := (\<lambda>s m. if snd s = (''b'', 2) then Inr [1] else Inr [0]),
       unpack_response :=
         (\<lambda>b. Inr \<lparr>number_returned = 1,
                    data = [if b = [1] then mongos_response else mongod_response]\<rparr>)\<rparr>"

text \<open>
  The direct client with one cached credential, connected to a primary by
  \<^verbatim>\<open>__ensure_member\<close>: the outcome, the client and the world after the call.
\<close>

definition credentials_client :: client where
  "credentials_client =
     direct_client\<lparr>auth_credentials :=
       [(''admin'', (''MONGODB-CR'', ''admin'', ''user'', ''secret''))]\<rparr>"

definition connected :: "(error + member) \<times> client \<times> world" where
  "connected = ensure_member (Suc 0) mixed_world credentials_client 0"

text \<open>
  A world in which no server can be reached, and a client that has lost its member after
  a resolution that found the nodes \<^verbatim>\<open>a:1\<close> and \<^verbatim>\<open>b:2\<close> from the seed \<^verbatim>\<open>b:2\<close>.
\<close>

definition down_world :: world where
  "down_world =
     example_world\<lparr>connect_error := (\<lambda>n. Some (socket_error [S ''Connection refused'']))\<rparr>"

definition known_nodes_client :: client where
  "known_nodes_client =
     direct_client\<lparr>seeds := [(''b'', 2)], nodes := [(''a'', 1), (''b'', 2)],
       repl := Some ''rs'', direct := False\<rparr>"

text \<open>The direct client with a cached member that is an arbiter.\<close>

definition arbiter_client :: client where
  "arbiter_client =
     direct_client\<lparr>member := Some (Member (''localhost'', 27017) 0 arbiter_response 0),
       nodes := [(''localhost'', 27017)]\<rparr>"

text \<open>A message whose largest document is one byte over the default limit.\<close>

definition oversized_message :: message where
  "oversized_message = Msg3 7 [1, 2, 3] (MAX_BSON_SIZE + 1)"

text \<open>
  The direct client without credentials, connected in the same way.
\<close>

definition plain_connected :: "(error + member) \<times> client \<times> world" where
  "plain_connected = ensure_member (Suc 0) mixed_world direct_client 0"

text \<open>
  Four lastError replies: a duplicate key, no error, "not master" with a duplicate-key
  code, and a router's reply whose second error object has the message of the reply;
  and the world in which a given document is the reply.
\<close>

definition duplicate_reply :: document where
  "duplicate_reply = [(''err'', BStr ''E11000 duplicate key error''), (''code'', BInt 11000)]"

definition no_error_reply :: document where
  "no_error_reply = [(''err'', BNull), (''n'', BInt 1), (''ok'', BInt 1)]"

definition not_master_reply :: document where
  "not_master_reply = [(''err'', BStr ''not master''), (''code'', BInt 11000)]"

definition sharded_reply :: document where
  "sharded_reply =
     [(''err'', BStr ''E11001 duplicate key on update''), (''code'', BInt 16460),
      (''errObjects'',
         BArray [BDoc [(''err'', BStr ''socket exception''), (''code'', BInt 9001)],
                 BDoc [(''err'', BStr ''E11001 duplicate key on update''),
                       (''code'', BInt 11001)]])]"

definition reply_world :: "document \<Rightarrow> world" where
  "reply_world d =
     example_world\<lparr>unpack_response := (\<lambda>b. Inr \<lparr>number_returned = 1, data = [d]\<rparr>)\<rparr>"

section \<open>Properties of the pool\<close>

lemmas pool_defs = Pool_def run_def start_request_def get_socket_def get_socket_body_def
  connect_def check_sock_def close_def set_forced_def set_last_checkout_def
  get_request_state_def set_request_state_def maybe_return_socket_def return_socket_def
  end_request_def SocketInfo_ne_def sockets_add_def reset_def on_thread_died_def
  example_world_def example_options_def example_pool_def no_socket_def

lemma bound_request_pool_eq:
  "bound_request_pool =
    \<lparr>check_interval_seconds = Some 1, sockets = [], pool_id = 0, pid = 1,
     pair = (''localhost'', 27017), opts = example_options,
     tid_to_sock = [0 \<mapsto> Sock 0], request_counter = (\<lambda>t. 0)(0 := 1),
     socket_semaphore = Permits 99,
     heap = (\<lambda>r. no_socket (''localhost'', 27017))
       (0 := \<lparr>sock = (0, (''localhost'', 27017)), authset = [], closed = False,
               last_checkout = 0, forced = False, si_pool_id = 0, exhaust = False\<rparr>),
     next_ref = 1\<rparr>"
  by (simp add: bound_request_pool_def pool_defs Let_def eval_nat_numeral)

lemma closed_request_pool_eq:
  "closed_request_pool =
    \<lparr>check_interval_seconds = Some 1, sockets = [], pool_id = 0, pid = 1,
     pair = (''localhost'', 27017), opts = example_options,
     tid_to_sock = [0 \<mapsto> Sock 0], request_counter = (\<lambda>t. 0)(0 := 1),
     socket_semaphore = Permits 99,
     heap = (\<lambda>r. no_socket (''localhost'', 27017))
       (0 := \<lparr>sock = (0, (''localhost'', 27017)), authset = [], closed = True,
               last_checkout = 0, forced = False, si_pool_id = 0, exhaust = False\<rparr>),
     next_ref = 1\<rparr>"
  by (simp add: closed_request_pool_def bound_request_pool_eq pool_defs Let_def)

subsection \<open>Requests\<close>

lemma end_start_request:
  assumes "request_consistent p t"
  shows "end_request (start_request p t) t = p"
proof (cases "request_counter p t = 0")
  case True
  with assms have "tid_to_sock p t = None" by (simp add: request_consistent_def)
  with True show ?thesis
    by (simp add: end_request_def start_request_def get_request_state_def set_request_state_def
        Let_def fun_upd_idem)
next
  case False
  with assms have "get_request_state p t \<noteq> NO_REQUEST" "0 \<le> request_counter p t"
    by (simp_all add: request_consistent_def)
  with False show ?thesis
    by (simp add: end_request_def start_request_def Let_def)
qed

lemma start_request_consistent:
  "request_consistent p t \<Longrightarrow> request_consistent (start_request p t) t"
  by (auto simp: request_consistent_def start_request_def get_request_state_def
      set_request_state_def Let_def split: option.splits)

lemma balanced_funpow:
  "request_consistent p t \<Longrightarrow>
   ((\<lambda>q. end_request q t) ^^ n) (((\<lambda>q. start_request q t) ^^ n) p) = p"
proof (induction n arbitrary: p)
  case 0
  then show ?case by simp
next
  case (Suc n)
  have s: "((\<lambda>q. start_request q t) ^^ Suc n) p
      = ((\<lambda>q. start_request q t) ^^ n) (start_request p t)"
    using funpow_swap1 [of "\<lambda>q. start_request q t" n p] by simp
  have "((\<lambda>q. end_request q t) ^^ Suc n) (((\<lambda>q. start_request q t) ^^ Suc n) p)
      = end_request (((\<lambda>q. end_request q t) ^^ n)
          (((\<lambda>q. start_request q t) ^^ n) (start_request p t))) t"
    unfolding s by simp
  also have "\<dots> = end_request (start_request p t) t"
    using Suc.IH [OF start_request_consistent [OF Suc.prems]] by simp
  also have "\<dots> = p" using Suc.prems by (rule end_start_request)
  finally show ?case .
qed

lemma end_request_idle: "request_counter p t = 0 \<Longrightarrow> end_request p t = p"
  by (simp add: end_request_def)

lemma end_request_funpow_idle:
  "request_counter p t = 0 \<Longrightarrow> ((\<lambda>q. end_request q t) ^^ k) p = p"
  by (induction k) (simp_all add: end_request_idle)

lemma return_socket_counter: "request_counter (return_socket p r) = request_counter p"
  by (simp add: return_socket_def Let_def close_def set_forced_def)

lemma end_request_counter_nonneg:
  "0 \<le> request_counter p t \<Longrightarrow> 0 \<le> request_counter (end_request p t) t"
  by (auto simp: end_request_def Let_def return_socket_counter set_request_state_def
      split: req_state.splits)

lemma end_request_funpow_nonneg:
  "0 \<le> request_counter p t \<Longrightarrow> 0 \<le> request_counter (((\<lambda>q. end_request q t) ^^ k) p) t"
  by (induction k) (simp_all add: end_request_counter_nonneg)

text \<open>
  The agreement of request state and counter holds in a new pool and is kept by every
  operation a live thread performs, for every thread.
\<close>

lemma foldl_close_request [simp]:
  "tid_to_sock (foldl close p xs) = tid_to_sock p"
  "request_counter (foldl close p xs) = request_counter p"
  by (induction xs arbitrary: p) (simp_all add: close_def)

lemma request_fields_reset [simp]:
  "tid_to_sock (reset w p) = tid_to_sock p" "request_counter (reset w p) = request_counter p"
  by (simp_all add: reset_def Let_def)

lemma request_fields_connect:
  "connect w p = (res, p', w') \<Longrightarrow>
   tid_to_sock p' = tid_to_sock p \<and> request_counter p' = request_counter p"
  by (auto simp: connect_def Let_def split: option.splits)

lemma request_fields_check_sock:
  "check_sock w p r = (res, p', w') \<Longrightarrow>
   tid_to_sock p' = tid_to_sock p \<and> request_counter p' = request_counter p"
  by (auto simp: check_sock_def Let_def close_def split: option.splits if_splits prod.splits sum.splits
      dest: request_fields_connect)

lemma request_fields_return_socket [simp]:
  "tid_to_sock (return_socket p r) = tid_to_sock p"
  "request_counter (return_socket p r) = request_counter p"
  by (simp_all add: return_socket_def Let_def close_def set_forced_def)

lemma request_consistent_cong:
  "tid_to_sock q = tid_to_sock p \<Longrightarrow> request_counter q = request_counter p \<Longrightarrow>
   request_consistent q t = request_consistent p t"
  by (simp add: request_consistent_def get_request_state_def)

lemma request_consistent_bind:
  "request_consistent p t' \<Longrightarrow> get_request_state p t \<noteq> NO_REQUEST \<Longrightarrow>
   tid_to_sock q = (tid_to_sock p)(t \<mapsto> Sock r) \<Longrightarrow> request_counter q = request_counter p \<Longrightarrow>
   request_consistent q t'"
  by (auto simp: request_consistent_def get_request_state_def split: option.splits if_splits)

lemma request_consistent_get_socket_body:
  assumes "get_socket_body w p t rs f = (res, p', w')" and "request_consistent p t'"
    and "rs = get_request_state p t"
  shows "request_consistent p' t'"
proof -
  obtain r1 p1 w1 where b: "(case sockets p of [] \<Rightarrow> connect w p
      | x # xs \<Rightarrow> check_sock w (p\<lparr>sockets := xs\<rparr>) x) = (r1, p1, w1)"
    by (cases "(case sockets p of [] \<Rightarrow> connect w p
      | x # xs \<Rightarrow> check_sock w (p\<lparr>sockets := xs\<rparr>) x)") auto
  then have f: "tid_to_sock p1 = tid_to_sock p \<and> request_counter p1 = request_counter p"
    by (auto split: list.splits dest: request_fields_connect request_fields_check_sock)
  show ?thesis
  proof (cases r1)
    case (Inl e)
    with assms b f have "tid_to_sock p' = tid_to_sock p \<and> request_counter p' = request_counter p"
      by (auto simp: get_socket_body_def Let_def split: if_splits)
    then show ?thesis using assms(2) request_consistent_cong by blast
  next
    case (Inr s)
    show ?thesis
    proof (cases "rs = NO_SOCKET_YET")
      case True
      with Inr assms b f
      have "tid_to_sock p' = (tid_to_sock p)(t \<mapsto> Sock s) \<and> request_counter p' = request_counter p"
        by (auto simp: get_socket_body_def Let_def set_request_state_def set_forced_def
            set_last_checkout_def)
      with True assms(2,3) show ?thesis
        using request_consistent_bind [of p t' t p' s] by simp
    next
      case False
      with Inr assms b f
      have "tid_to_sock p' = tid_to_sock p \<and> request_counter p' = request_counter p"
        by (auto simp: get_socket_body_def Let_def set_forced_def set_last_checkout_def)
      then show ?thesis using assms(2) request_consistent_cong by blast
    qed
  qed
qed

lemma request_consistent_get_socket:
  assumes "get_socket w p t force = (res, p', w')" and "request_consistent p t'"
  shows "request_consistent p' t'"
proof -
  define p0 where "p0 = (if pid p \<noteq> getpid w then reset w p else p)"
  have p0: "request_consistent p0 t'"
    using assms(2) by (simp add: p0_def request_consistent_cong [of "reset w p" p])
  have g: "get_request_state (p0\<lparr>socket_semaphore := s\<rparr>) t = get_request_state p0 t" for s
    by (simp add: get_request_state_def)
  have p1: "request_consistent (p0\<lparr>socket_semaphore := s\<rparr>) t'" for s
    using p0 by (simp add: request_consistent_cong [of "p0\<lparr>socket_semaphore := s\<rparr>" p0])
  show ?thesis
  proof (cases "get_request_state p0 t")
    case (Sock r)
    obtain r1 p1 w1 where c: "check_sock w p0 r = (r1, p1, w1)"
      by (cases "check_sock w p0 r") auto
    from request_fields_check_sock [OF c]
    have f: "tid_to_sock p1 = tid_to_sock p0" "request_counter p1 = request_counter p0"
      by simp_all
    show ?thesis
    proof (cases r1)
      case (Inl e)
      with assms(1) Sock c have "p' = p1"
        unfolding get_socket_def p0_def [symmetric] Let_def by simp
      with f p0 show ?thesis using request_consistent_cong by blast
    next
      case (Inr s)
      with assms(1) Sock c f
      have "(tid_to_sock p' = tid_to_sock p0 \<or> tid_to_sock p' = (tid_to_sock p0)(t \<mapsto> Sock s))
          \<and> request_counter p' = request_counter p0"
        unfolding get_socket_def p0_def [symmetric] Let_def
        by (auto simp: set_request_state_def set_last_checkout_def split: if_splits)
      with p0 Sock show ?thesis
        using request_consistent_cong [of p' p0 t'] request_consistent_bind [of p0 t' t p' s]
        by auto
    qed
  next
    case NO_REQUEST
    with assms(1) p0 p1 g show ?thesis
      unfolding get_socket_def p0_def [symmetric] Let_def
      by (auto split: if_splits prod.splits sum.splits
          dest!: request_consistent_get_socket_body [where t' = t'])
  next
    case NO_SOCKET_YET
    with assms(1) p0 p1 g show ?thesis
      unfolding get_socket_def p0_def [symmetric] Let_def
      by (auto split: if_splits prod.splits sum.splits
          dest!: request_consistent_get_socket_body [where t' = t'])
  qed
qed

lemma request_consistent_start_request:
  "request_consistent p t' \<Longrightarrow> request_consistent (start_request p t) t'"
  by (auto simp: request_consistent_def start_request_def get_request_state_def
      set_request_state_def Let_def split: option.splits if_splits)

lemma request_consistent_end_request:
  "request_consistent p t' \<Longrightarrow> request_consistent (end_request p t) t'"
  by (auto simp: request_consistent_def end_request_def get_request_state_def
      set_request_state_def Let_def split: option.splits if_splits req_state.splits)

lemma request_consistent_maybe_return_socket:
  "request_consistent p t' \<Longrightarrow> request_consistent (maybe_return_socket w p t s) t'"
  by (auto simp: request_consistent_def maybe_return_socket_def get_request_state_def
      set_forced_def split: req_state.splits)

lemma request_consistent_Pool: "request_consistent (Pool w pr options) t"
  by (simp add: request_consistent_def Pool_def)

lemma request_consistent_close:
  "request_consistent p t \<Longrightarrow> request_consistent (close p r) t"
  using request_consistent_cong [of "close p r" p t] by (simp add: close_def)

lemma request_consistent_reset:
  "request_consistent p t \<Longrightarrow> request_consistent (reset w p) t"
  by (simp add: request_consistent_cong [of "reset w p" p])

lemma request_consistent_on_thread_died:
  "request_consistent p t \<Longrightarrow> t' \<noteq> t \<Longrightarrow> request_consistent (on_thread_died p t') t"
  by (auto simp: request_consistent_def on_thread_died_def get_request_state_def Let_def
      split: option.splits req_state.splits if_splits)

lemma request_consistent_step:
  assumes "request_consistent p t" and "snd a \<noteq> Thread_died t"
  shows "request_consistent (step p a) t"
proof (cases a)
  case (Pair w op)
  show ?thesis
  proof (cases op)
    case (Get_socket t' force)
    obtain res p' w' where g: "get_socket w p t' force = (res, p', w')"
      by (cases "get_socket w p t' force") auto
    from request_consistent_get_socket [OF g assms(1)] show ?thesis
      by (simp add: Pair Get_socket g)
  next
    case (Thread_died t')
    with assms Pair show ?thesis
      by (simp add: request_consistent_on_thread_died)
  qed (simp_all add: Pair assms request_consistent_reset request_consistent_start_request
        request_consistent_end_request request_consistent_maybe_return_socket
        request_consistent_close)
qed

lemma request_consistent_run:
  "request_consistent p t \<Longrightarrow> \<forall>a \<in> set ops. snd a \<noteq> Thread_died t \<Longrightarrow>
   request_consistent (run p ops) t"
  unfolding run_def
  by (induction ops arbitrary: p) (simp_all add: request_consistent_step)

text \<open>
  C9. In a pool where the request state of the calling thread agrees with its counter,
  \<open>n\<close> calls of \<^verbatim>\<open>start_request\<close> followed by \<open>n\<close> calls of \<^verbatim>\<open>end_request\<close>, with no
  socket taken in between, leave the whole pool as it was: the idle set, the request
  bindings, the counter and everything else. Once the counter is zero any number of
  further \<^verbatim>\<open>end_request\<close> calls change nothing, and the counter never goes below zero.
  The request state of a thread agrees with its counter in every pool that a new pool
  reaches by operations of any threads, as long as the death hook of that thread has not
  run.
\<close>

theorem start_end_request_balanced:
  "(request_consistent p t \<longrightarrow>
      ((\<lambda>q. end_request q t) ^^ n) (((\<lambda>q. start_request q t) ^^ n) p) = p
      \<and> (request_counter p t = 0 \<longrightarrow> ((\<lambda>q. end_request q t) ^^ k) p = p)
      \<and> 0 \<le> request_counter (((\<lambda>q. end_request q t) ^^ k) p) t)
   \<and> ((\<forall>a \<in> set ops. snd a \<noteq> Thread_died t) \<longrightarrow>
        request_consistent (run (Pool w pr options) ops) t)"
  using balanced_funpow [of p t n] end_request_funpow_idle [of p t k]
    end_request_funpow_nonneg [of p t k]
    request_consistent_run [OF request_consistent_Pool, of ops t w pr options]
  by (simp add: request_consistent_def)

text \<open>
  The law at the pool in which thread 0 is inside a request with a socket bound, for two
  nested requests; and at the fresh pool, where a further \<^verbatim>\<open>end_request\<close> is a no-op.
  The pool with the bound socket is reached from the new pool by two operations.
\<close>

theorem start_end_request_balanced_witness:
  "request_consistent bound_request_pool 0
   \<and> ((\<lambda>q. end_request q 0) ^^ 2) (((\<lambda>q. start_request q 0) ^^ 2) bound_request_pool)
       = bound_request_pool
   \<and> request_consistent example_pool 0
   \<and> request_counter example_pool 0 = 0
   \<and> ((\<lambda>q. end_request q 0) ^^ 3) example_pool = example_pool
   \<and> 0 \<le> request_counter (((\<lambda>q. end_request q 0) ^^ 3) bound_request_pool) 0
   \<and> request_consistent
        (run (Pool example_world (''localhost'', 27017) example_options)
           [(example_world, Start_request 0), (example_world, Get_socket 0 False)]) 0"
proof -
  have a: "request_consistent bound_request_pool 0"
    by (simp add: request_consistent_def bound_request_pool_eq get_request_state_def)
  have b: "request_consistent example_pool 0" "request_counter example_pool 0 = 0"
    by (simp_all add: request_consistent_def example_pool_def Pool_def)
  show ?thesis
    using a b
      start_end_request_balanced [of bound_request_pool 0 2 3
        "[(example_world, Start_request 0), (example_world, Get_socket 0 False)]"
        example_world "(''localhost'', 27017)" example_options]
      start_end_request_balanced [of example_pool 0 0 3 "[]"]
    by simp
qed

subsection \<open>The idle set\<close>

lemma close_fields [simp]:
  "sockets (close p r) = sockets p" "pool_id (close p r) = pool_id p"
  "si_pool_id (heap (close p r) x) = si_pool_id (heap p x)"
  by (simp_all add: close_def)

lemma set_forced_fields [simp]:
  "sockets (set_forced p r b) = sockets p" "pool_id (set_forced p r b) = pool_id p"
  "si_pool_id (heap (set_forced p r b) x) = si_pool_id (heap p x)"
  "closed (heap (set_forced p r b) x) = closed (heap p x)"
  by (simp_all add: set_forced_def)

lemma set_last_checkout_fields [simp]:
  "sockets (set_last_checkout p r b) = sockets p" "pool_id (set_last_checkout p r b) = pool_id p"
  "si_pool_id (heap (set_last_checkout p r b) x) = si_pool_id (heap p x)"
  by (simp_all add: set_last_checkout_def)

lemma set_request_state_fields [simp]:
  "sockets (set_request_state p t s) = sockets p" "pool_id (set_request_state p t s) = pool_id p"
  "heap (set_request_state p t s) = heap p"
  by (simp_all add: set_request_state_def)

lemma foldl_close_fields [simp]:
  "sockets (foldl close p xs) = sockets p" "pool_id (foldl close p xs) = pool_id p"
  "si_pool_id (heap (foldl close p xs) x) = si_pool_id (heap p x)"
  by (induction xs arbitrary: p) simp_all

lemma idle_generation_reset: "idle_generation (reset w p)"
  by (simp add: reset_def idle_generation_def Let_def)

lemma idle_generation_connect:
  "connect w p = (res, p', w') \<Longrightarrow> idle_generation p \<Longrightarrow> idle_generation p'"
  by (auto simp: connect_def idle_generation_def Let_def split: option.splits)

lemma idle_generation_close: "idle_generation p \<Longrightarrow> idle_generation (close p r)"
  by (simp add: idle_generation_def)

lemma idle_generation_reconnect:
  assumes "(case connect w q of
                 (Inl e, p2, w2) \<Rightarrow>
                   (if is_socket_error e then (Inl e, reset w2 p2, w2) else (Inl e, p2, w2))
               | (Inr r', p2, w2) \<Rightarrow> (Inr r', p2, w2)) = (res, p', w')"
    and "idle_generation q"
  shows "idle_generation p'"
  using assms
  by (auto simp: idle_generation_reset split: prod.splits sum.splits if_splits
      dest: idle_generation_connect)

lemma idle_generation_check_sock:
  assumes "check_sock w p r = (res, p', w')" and "idle_generation p"
  shows "idle_generation p'"
  using assms(1) assms(2) idle_generation_close [OF assms(2), of r]
  by (auto simp: check_sock_def Let_def split: option.splits if_splits
      dest: idle_generation_reconnect)

lemma set_sockets_add: "set (sockets_add h r xs) \<subseteq> insert r (set xs)"
  by (auto simp: sockets_add_def)

lemma idle_generation_return_socket:
  assumes "idle_generation p"
  shows "idle_generation (return_socket p r)"
  using assms set_sockets_add [of "heap p" r "sockets p"]
  by (auto simp: return_socket_def idle_generation_def Let_def set_forced_def close_def
      split: option.splits)

lemma idle_generation_fields [simp]:
  "idle_generation (p\<lparr>socket_semaphore := s\<rparr>) = idle_generation p"
  "idle_generation (p\<lparr>request_counter := c\<rparr>) = idle_generation p"
  "idle_generation (p\<lparr>tid_to_sock := m\<rparr>) = idle_generation p"
  "idle_generation (set_forced p r b) = idle_generation p"
  "idle_generation (set_last_checkout p r t') = idle_generation p"
  "idle_generation (set_request_state p t s') = idle_generation p"
  by (simp_all add: idle_generation_def)

lemma idle_generation_tl:
  "idle_generation p \<Longrightarrow> sockets p = x # xs \<Longrightarrow> idle_generation (p\<lparr>sockets := xs\<rparr>)"
  by (simp add: idle_generation_def)

lemma idle_generation_get_socket_body:
  assumes "get_socket_body w p t rs f = (res, p', w')" and "idle_generation p"
  shows "idle_generation p'"
proof (cases "sockets p")
  case Nil
  then show ?thesis
    using assms
    by (auto simp: get_socket_body_def Let_def split: prod.splits sum.splits if_splits
        dest: idle_generation_connect)
next
  case (Cons x xs)
  then show ?thesis
    using assms(1) idle_generation_tl [OF assms(2) Cons]
    by (auto simp: get_socket_body_def Let_def split: prod.splits sum.splits if_splits
        dest: idle_generation_check_sock)
qed

lemma idle_generation_get_socket:
  assumes "get_socket w p t force = (res, p', w')" and "idle_generation p"
  shows "idle_generation p'"
proof -
  define p0 where "p0 = (if pid p \<noteq> getpid w then reset w p else p)"
  have p0: "idle_generation p0"
    using assms(2) by (simp add: p0_def idle_generation_reset)
  then have p1: "\<And>s. idle_generation (p0\<lparr>socket_semaphore := s\<rparr>)" by simp
  show ?thesis
    using assms(1) p0 p1
    unfolding get_socket_def p0_def [symmetric] Let_def
    by (auto split: req_state.splits prod.splits sum.splits if_splits
        dest: idle_generation_check_sock idle_generation_get_socket_body)
qed

lemma idle_generation_start_request:
  "idle_generation p \<Longrightarrow> idle_generation (start_request p t)"
  by (simp add: start_request_def Let_def)

lemma idle_generation_end_request:
  "idle_generation p \<Longrightarrow> idle_generation (end_request p t)"
  by (simp add: end_request_def Let_def idle_generation_return_socket split: req_state.splits)

lemma idle_generation_maybe_return_socket:
  "idle_generation p \<Longrightarrow> idle_generation (maybe_return_socket w p t s)"
  by (simp add: maybe_return_socket_def idle_generation_reset idle_generation_return_socket
      split: req_state.splits)

lemma idle_generation_on_thread_died:
  "idle_generation p \<Longrightarrow> idle_generation (on_thread_died p t)"
  by (simp add: on_thread_died_def Let_def idle_generation_return_socket
      split: option.splits req_state.splits)

lemma idle_generation_step:
  assumes "idle_generation p"
  shows "idle_generation (step p a)"
proof (cases a)
  case (Pair w op)
  show ?thesis
  proof (cases op)
    case (Get_socket t force)
    obtain res p' w' where g: "get_socket w p t force = (res, p', w')"
      by (cases "get_socket w p t force") auto
    from idle_generation_get_socket [OF g assms] show ?thesis
      by (simp add: Pair Get_socket g)
  qed (simp_all add: Pair assms idle_generation_reset idle_generation_start_request
        idle_generation_end_request idle_generation_maybe_return_socket
        idle_generation_on_thread_died idle_generation_close)
qed

lemma idle_generation_run:
  "idle_generation p \<Longrightarrow> idle_generation (run p ops)"
  unfolding run_def
  by (induction ops arbitrary: p) (simp_all add: idle_generation_step)

lemma idle_generation_Pool: "idle_generation (Pool w pr options)"
  by (simp add: idle_generation_def Pool_def)

lemma maybe_return_socket_new_idle_open:
  assumes "x \<in> set (sockets (maybe_return_socket w p t s))" and "x \<notin> set (sockets p)"
  shows "\<not> closed (heap (maybe_return_socket w p t s) x)"
proof (cases s)
  case (Sock r)
  have a: "set (sockets (return_socket p r)) \<subseteq> insert r (set (sockets p))"
    using set_sockets_add [of "heap p" r "sockets p"]
    by (auto simp: return_socket_def Let_def set_forced_def split: option.splits if_splits)
  have b: "r \<in> set (sockets (return_socket p r)) \<Longrightarrow> r \<notin> set (sockets p) \<Longrightarrow>
     closed (heap (return_socket p r) r) = closed (heap p r)"
    by (auto simp: return_socket_def Let_def set_forced_def close_def
        split: option.splits if_splits)
  show ?thesis
    using assms a b unfolding Sock
    by (auto simp: maybe_return_socket_def reset_def Let_def set_forced_def
        split: if_splits)
qed (use assms in \<open>simp_all add: maybe_return_socket_def\<close>)

text \<open>
  C2, as the code has it. Every socket in the idle set has the pool's current
  \<^verbatim>\<open>pool_id\<close>: this holds in a new pool and after every sequence of \<^verbatim>\<open>reset\<close>,
  \<^verbatim>\<open>get_socket\<close>, \<^verbatim>\<open>start_request\<close>, \<^verbatim>\<open>end_request\<close>, \<^verbatim>\<open>maybe_return_socket\<close>,
  the thread-death hook and the closing of sockets, by any threads and in any worlds.
  A socket that \<^verbatim>\<open>maybe_return_socket\<close> adds to the idle set is not closed.
  (\<^verbatim>\<open>end_request\<close> and the thread-death hook add the request socket without looking
  at its \<^verbatim>\<open>closed\<close> flag; \<^verbatim>\<open>_check\<close> replaces a closed socket when it is taken.)
\<close>

theorem idle_sockets_current_pool_id:
  "idle_generation (Pool w pr options)
   \<and> (idle_generation p \<longrightarrow> idle_generation (run p ops))
   \<and> (x \<in> set (sockets (maybe_return_socket w' q t s)) \<and> x \<notin> set (sockets q) \<longrightarrow>
        \<not> closed (heap (maybe_return_socket w' q t s) x))"
  using idle_generation_Pool idle_generation_run maybe_return_socket_new_idle_open
  by blast

text \<open>
  After a reset, a request of thread 0 with a socket, ended: the socket is idle and has
  the pool's \<^verbatim>\<open>pool_id\<close>, which is 1. A socket taken outside a request and returned
  through \<^verbatim>\<open>maybe_return_socket\<close> is idle and open.
\<close>

theorem idle_sockets_current_pool_id_witness:
  "idle_generation example_pool
   \<and> sockets (run example_pool
        [(example_world, Reset), (example_world, Start_request 0),
         (example_world, Get_socket 0 False), (example_world, End_request 0)]) = [0]
   \<and> si_pool_id (heap (run example_pool
        [(example_world, Reset), (example_world, Start_request 0),
         (example_world, Get_socket 0 False), (example_world, End_request 0)]) 0) = 1
   \<and> pool_id (run example_pool
        [(example_world, Reset), (example_world, Start_request 0),
         (example_world, Get_socket 0 False), (example_world, End_request 0)]) = 1
   \<and> 0 \<in> set (sockets (maybe_return_socket example_world
                (run example_pool [(example_world, Get_socket 0 False)]) 0 (Sock 0)))
   \<and> 0 \<notin> set (sockets (run example_pool [(example_world, Get_socket 0 False)]))
   \<and> \<not> closed (heap (maybe_return_socket example_world
                (run example_pool [(example_world, Get_socket 0 False)]) 0 (Sock 0)) 0)"
proof -
  let ?ops = "[(example_world, Reset), (example_world, Start_request 0),
         (example_world, Get_socket 0 False), (example_world, End_request 0)]"
  let ?q = "run example_pool [(example_world, Get_socket 0 False)]"
  have a: "idle_generation example_pool"
    by (simp add: idle_generation_def example_pool_def Pool_def)
  have s: "sockets (run example_pool ?ops) = [0]"
    by (simp add: pool_defs Let_def eval_nat_numeral)
  have i: "pool_id (run example_pool ?ops) = 1"
    by (simp add: pool_defs Let_def eval_nat_numeral)
  have m: "0 \<in> set (sockets (maybe_return_socket example_world ?q 0 (Sock 0)))"
    "0 \<notin> set (sockets ?q)"
    by (simp_all add: pool_defs Let_def eval_nat_numeral)
  from idle_sockets_current_pool_id [of example_world "(''localhost'', 27017)" example_options
      example_pool ?ops 0 example_world ?q 0 "Sock 0"] a m
  have "idle_generation (run example_pool ?ops)"
    and "\<not> closed (heap (maybe_return_socket example_world ?q 0 (Sock 0)) 0)"
    by blast+
  with a s i m show ?thesis
    by (simp add: idle_generation_def)
qed

text \<open>
  The claim as stated fails for \<^verbatim>\<open>closed\<close>: thread 0 is in a request, its request
  socket has been closed by a network error and stays bound; no socket is idle. Then
  \<^verbatim>\<open>end_request\<close> puts the closed socket into the idle set.
\<close>

theorem idle_socket_closed_counterexample:
  "sockets closed_request_pool = []
   \<and> sockets (end_request closed_request_pool 0) = [0]
   \<and> closed (heap (end_request closed_request_pool 0) 0)
   \<and> si_pool_id (heap (end_request closed_request_pool 0) 0)
       = pool_id (end_request closed_request_pool 0)"
  by (simp add: closed_request_pool_eq pool_defs Let_def)

subsection \<open>Returning a closed socket\<close>

text \<open>
  C4, as the code has it. When \<^verbatim>\<open>maybe_return_socket\<close> is given a closed socket and
  the process id is unchanged: a forced socket drops its forced flag and no permit is
  released; a socket that is not forced and equals the caller's request socket stays
  bound and no permit is released; any other socket releases exactly one permit. In all
  three cases nothing else in the pool changes, so the socket is not added to the idle
  set.
\<close>

theorem maybe_return_socket_closed:
  assumes "pid p = getpid w" and "closed (heap p r)"
  shows "maybe_return_socket w p t (Sock r) =
           (if forced (heap p r) then set_forced p r False
            else if SocketInfo_eq (heap p) r (get_request_state p t) then p
            else p\<lparr>socket_semaphore := release (socket_semaphore p)\<rparr>)
         \<and> sockets (maybe_return_socket w p t (Sock r)) = sockets p"
  using assms by (simp add: maybe_return_socket_def SocketInfo_ne_def set_forced_def)

text \<open>
  The closed socket of thread 0's request, handed in by thread 1, whose request state is
  \<^verbatim>\<open>NO_REQUEST\<close>: one permit is released, from 99 to 100.
\<close>

theorem maybe_return_socket_closed_witness:
  "pid closed_request_pool = getpid example_world
   \<and> closed (heap closed_request_pool 0)
   \<and> maybe_return_socket example_world closed_request_pool 1 (Sock 0)
       = closed_request_pool\<lparr>socket_semaphore := Permits 100\<rparr>
   \<and> sockets (maybe_return_socket example_world closed_request_pool 1 (Sock 0)) = []"
proof -
  have a: "pid closed_request_pool = getpid example_world"
    by (simp add: closed_request_pool_eq example_world_def)
  have b: "closed (heap closed_request_pool 0)"
    by (simp add: closed_request_pool_eq)
  show ?thesis
    using a b maybe_return_socket_closed [OF a b, of 1]
    by (simp add: closed_request_pool_eq get_request_state_def eval_nat_numeral)
qed

text \<open>
  The claim as stated fails for the request socket: it is closed and not forced, the
  process id is unchanged, and \<^verbatim>\<open>maybe_return_socket\<close> called by its thread releases no
  permit.
\<close>

theorem maybe_return_socket_closed_counterexample:
  "pid closed_request_pool = getpid example_world
   \<and> closed (heap closed_request_pool 0)
   \<and> \<not> forced (heap closed_request_pool 0)
   \<and> socket_semaphore closed_request_pool = Permits 99
   \<and> socket_semaphore (maybe_return_socket example_world closed_request_pool 0 (Sock 0))
       = Permits 99"
  by (simp add: closed_request_pool_eq pool_defs Let_def)

subsection \<open>Equality of sockets\<close>

text \<open>
  C10. Equality and hashing of \<^verbatim>\<open>SocketInfo\<close> go through the raw socket: two
  \<^verbatim>\<open>SocketInfo\<close> objects are equal iff their \<^verbatim>\<open>sock\<close> attributes are equal, and then
  their hashes are equal; a value without a \<^verbatim>\<open>sock\<close> attribute, such as
  \<^verbatim>\<open>NO_REQUEST\<close> and \<^verbatim>\<open>NO_SOCKET_YET\<close>, is unequal to every \<^verbatim>\<open>SocketInfo\<close>; and
  \<^verbatim>\<open>maybe_return_socket\<close>, given an open socket in the same process, keeps it when it
  is equal in this sense to the caller's request state and returns it to the pool
  otherwise.
\<close>

theorem SocketInfo_equality:
  "SocketInfo_eq h a (Sock b) = (sock (h a) = sock (h b))
   \<and> (\<not> hasattr_sock other \<longrightarrow> \<not> SocketInfo_eq h a other)
   \<and> \<not> SocketInfo_eq h a NO_REQUEST \<and> \<not> SocketInfo_eq h a NO_SOCKET_YET
   \<and> SocketInfo_ne h a other = (\<not> SocketInfo_eq h a other)
   \<and> SocketInfo_hash hash h a = hash (sock (h a))
   \<and> (SocketInfo_eq h a (Sock b) \<longrightarrow> SocketInfo_hash hash h a = SocketInfo_hash hash h b)
   \<and> (pid p = getpid w \<and> \<not> closed (heap p r) \<longrightarrow>
        maybe_return_socket w p t (Sock r) =
          (if SocketInfo_eq (heap p) r (get_request_state p t) then p else return_socket p r))"
  by (cases other) (simp_all add: SocketInfo_ne_def SocketInfo_hash_def maybe_return_socket_def)

text \<open>
  In the pool where socket 0 is the open request socket of thread 0: thread 0 handing it
  in keeps it bound and the pool unchanged; thread 1, whose request state is
  \<^verbatim>\<open>NO_REQUEST\<close>, returns it to the idle set.
\<close>

theorem SocketInfo_equality_witness:
  "\<not> hasattr_sock NO_SOCKET_YET
   \<and> \<not> SocketInfo_eq (heap bound_request_pool) 0 NO_SOCKET_YET
   \<and> SocketInfo_eq (heap bound_request_pool) 0 (Sock 0)
   \<and> SocketInfo_hash (\<lambda>s. int (fst s)) (heap bound_request_pool) 0
       = SocketInfo_hash (\<lambda>s. int (fst s)) (heap bound_request_pool) 0
   \<and> pid bound_request_pool = getpid example_world
   \<and> \<not> closed (heap bound_request_pool 0)
   \<and> maybe_return_socket example_world bound_request_pool 0 (Sock 0) = bound_request_pool
   \<and> maybe_return_socket example_world bound_request_pool 1 (Sock 0)
       = return_socket bound_request_pool 0
   \<and> sockets (return_socket bound_request_pool 0) = [0]"
proof -
  have a: "pid bound_request_pool = getpid example_world"
    "\<not> closed (heap bound_request_pool 0)"
    by (simp_all add: bound_request_pool_eq example_world_def)
  have s: "sockets (return_socket bound_request_pool 0) = [0]"
    by (simp add: bound_request_pool_eq return_socket_def sockets_add_def example_options_def
        Let_def)
  show ?thesis
    using a s
      SocketInfo_equality [of "heap bound_request_pool" 0 0 NO_SOCKET_YET "\<lambda>s. int (fst s)"
        bound_request_pool example_world 0 0]
      SocketInfo_equality [of "heap bound_request_pool" 0 0 NO_SOCKET_YET "\<lambda>s. int (fst s)"
        bound_request_pool example_world 0 1]
    by (simp add: bound_request_pool_eq get_request_state_def)
qed

section \<open>Properties of the client\<close>

text \<open>Equations for running the definitions on the example states.\<close>

lemma acquire_blocking_Permits:
  "acquire_blocking (Permits n) t =
     (if n = 0 then (case t of Some x \<Rightarrow> Inr (False, Permits 0) | None \<Rightarrow> Inl Blocks_forever)
      else Inr (True, Permits (n - 1)))"
  by (cases n; cases t) simp_all

lemma acquire_nonblocking_Permits:
  "acquire_nonblocking (Permits n) =
     (if n = 0 then (False, Permits 0) else (True, Permits (n - 1)))"
  by (cases n) simp_all

lemmas client_defs = call_ismaster_def simple_command_def SocketInfo_send_message_def
  SocketInfo_receive_message_def SocketInfo_exit_def Member_def get_bool_def get_int_def
  direct_client_def seed_list_client_def arbiter_response_def mongod_response_def
  mongos_response_def arbiter_world_def incompatible_world_def mixed_world_def find_node_def candidates_def
  pick_nearest_def ensure_member_def resolving_def mixed_seed_list_error_def
  down_world_def known_nodes_client_def arbiter_client_def credentials_client_def
  connected_def plain_connected_def oversized_message_def not_master_reply_def
  duplicate_reply_def no_error_reply_def sharded_reply_def reply_world_def
  socket_def check_auth_def authenticate_def in_request_def disconnect_def
  send_message_def send_message_try_def send_message_handlers_def
  client_is_primary_def client_max_bson_size_def document_too_large_def
  MAX_BSON_SIZE_def MAX_MESSAGE_SIZE_def MAX_WRITE_BATCH_SIZE_def MIN_WIRE_VERSION_def
  MAX_WIRE_VERSION_def check_response_to_last_error_def last_error_details_def
  duplicate_key_code_def

lemmas eval_defs = client_defs pool_defs acquire_blocking_Permits acquire_nonblocking_Permits
  Let_def split_beta

subsection \<open>Probing a node\<close>

lemma call_ismaster_direct:
  "call_ismaster w c t nd = (r, c1, w1) \<Longrightarrow> direct c1 = direct c"
  by (auto simp: call_ismaster_def Let_def split: prod.splits sum.splits)

text \<open>
  C1, as the code has it. Take a call of the probe in direct mode (one seed and no
  replica-set name), within the recursion limit, whose handshake response marks the node
  as an arbiter (\<^verbatim>\<open>arbiterOnly\<close> true). The probe raises no error for the arbiter: if
  the member can be constructed from the response, the probe returns that member, which
  is an arbiter, together with the single-address node set; the only error it can raise
  is the one that constructing the member raises. The error "is an arbiter" is guarded
  by \<^verbatim>\<open>not self.__direct\<close>.
\<close>

theorem try_node_direct:
  assumes "direct c"
    and "call_ismaster w c t nd = (Inr (response, res_time), c1, w1)"
    and "map_of response ''arbiterOnly'' = Some (BBool True)"
  shows "try_node (Suc depth) w c t nd =
           (case member_error w1 response of
              Some e \<Rightarrow> (Inl e, c1, w1)
            | None \<Rightarrow> (Inr (Member nd (next_pool c) response res_time, [nd]), c1, w1))
         \<and> is_arbiter (Member nd (next_pool c) response res_time)"
  using assms call_ismaster_direct [of w c t nd]
  by (auto simp: Member_def get_bool_def split: option.splits)

text \<open>
  Thread 1 of the direct client probing \<^verbatim>\<open>localhost:27017\<close>, an arbiter: the member
  is returned, with the state and the world that the handshake left. Where the member
  cannot be constructed, the constructor's error is raised.
\<close>

theorem try_node_direct_witness:
  "direct direct_client
   \<and> fst (call_ismaster arbiter_world direct_client 1 (''localhost'', 27017))
       = Inr (arbiter_response, 0)
   \<and> map_of arbiter_response ''arbiterOnly'' = Some (BBool True)
   \<and> try_node (Suc (Suc 0)) arbiter_world direct_client 1 (''localhost'', 27017)
       = (Inr (Member (''localhost'', 27017) 0 arbiter_response 0, [(''localhost'', 27017)]),
          snd (call_ismaster arbiter_world direct_client 1 (''localhost'', 27017)))
   \<and> is_arbiter (Member (''localhost'', 27017) 0 arbiter_response 0)
   \<and> fst (call_ismaster incompatible_world direct_client 1 (''localhost'', 27017))
       = Inr (arbiter_response, 0)
   \<and> try_node (Suc (Suc 0)) incompatible_world direct_client 1 (''localhost'', 27017)
       = (Inl incompatible_wire_error,
          snd (call_ismaster incompatible_world direct_client 1 (''localhost'', 27017)))"
proof -
  let ?h = "call_ismaster arbiter_world direct_client 1 (''localhost'', 27017)"
  let ?i = "call_ismaster incompatible_world direct_client 1 (''localhost'', 27017)"
  have d: "direct direct_client" "next_pool direct_client = 0"
    by (simp_all add: direct_client_def)
  have a: "map_of arbiter_response ''arbiterOnly'' = Some (BBool True)"
    by (simp add: arbiter_response_def)
  have h: "fst ?h = Inr (arbiter_response, 0)"
    by (simp add: eval_defs)
  then have h': "?h = (Inr (arbiter_response, 0), fst (snd ?h), snd (snd ?h))"
    by (simp add: prod_eq_iff)
  have i: "fst ?i = Inr (arbiter_response, 0)"
    by (simp add: eval_defs)
  then have i': "?i = (Inr (arbiter_response, 0), fst (snd ?i), snd (snd ?i))"
    by (simp add: prod_eq_iff)
  have m: "member_error (snd (snd ?h)) arbiter_response = None"
    "member_error (snd (snd ?i)) arbiter_response = Some incompatible_wire_error"
    by (simp_all add: eval_defs)
  show ?thesis
    using d a h i m
      try_node_direct [OF d(1) h' a, of "Suc 0"]
      try_node_direct [OF d(1) i' a, of "Suc 0"]
    by simp
qed

text \<open>
  The statement of the specification fails: the client is direct, the handshake response
  has \<^verbatim>\<open>arbiterOnly\<close> true, the member can be constructed, and the probe returns the
  member, an arbiter.
\<close>

theorem arbiter_direct_counterexample:
  "direct direct_client
   \<and> length (seeds direct_client) = 1 \<and> repl direct_client = None
   \<and> fst (call_ismaster arbiter_world direct_client 0 (''localhost'', 27017))
       = Inr (arbiter_response, 0)
   \<and> map_of arbiter_response ''arbiterOnly'' = Some (BBool True)
   \<and> member_error arbiter_world arbiter_response = None
   \<and> fst (try_node (Suc 0) arbiter_world direct_client 0 (''localhost'', 27017))
       = Inr (Member (''localhost'', 27017) 0 arbiter_response 0, [(''localhost'', 27017)])
   \<and> is_arbiter (Member (''localhost'', 27017) 0 arbiter_response 0)"
  by (simp add: eval_defs)

subsection \<open>Mixed seed lists\<close>

lemma find_node_loop_append:
  "find_node_loop depth t pre errors mc c w = (Inr (None, errors', mc'), c', w') \<Longrightarrow>
   find_node_loop depth t (pre @ ys) errors mc c w = find_node_loop depth t ys errors' mc' c' w'"
proof (induction pre arbitrary: errors mc c w)
  case Nil
  then show ?case by simp
next
  case (Cons candidate rest)
  show ?case
  proof (cases "try_node depth w c t candidate")
    case (fields res c1 w1)
    show ?thesis
    proof (cases res)
      case (Inl e)
      with fields Cons.prems Cons.IH show ?thesis
        by (simp split: if_splits)
    next
      case (Inr mn)
      obtain mem nds where mn: "mn = (mem, nds)" by (cases mn)
      show ?thesis
      proof (cases "is_mongos mem \<and> \<not> direct c1")
        case True
        with Inr fields mn Cons.prems
        have "find_node_loop depth t rest errors (mc @ [mem]) c1 w1
                = (Inr (None, errors', mc'), c', w')"
          by simp
        from Cons.IH [OF this] True Inr fields mn show ?thesis by simp
      next
        case False
        with Inr fields mn Cons.prems show ?thesis
          by (simp split: if_splits)
      qed
    qed
  qed
qed

text \<open>
  C3, as the code has it. Let the probe of candidate \<open>x\<close> return a member that is not
  a router. If the candidates before \<open>x\<close>, in the order in which the loop visits them,
  were probed without a member being chosen or an error being raised, and at least one of
  them answered as a router, then \<^verbatim>\<open>__find_node\<close> raises the configuration error for
  a mixed seed list. If \<open>x\<close> is the first candidate, its member is returned at once
  and the later candidates, routers or not, are never probed.
\<close>

theorem mixed_seed_list:
  assumes "member c = None"
    and "try_node depth w' c' t x = (Inr (mem, nds), c1, w1)"
    and "\<not> is_mongos mem"
  shows "(find_node_loop depth t pre [] [] c w = (Inr (None, errors, mongos_candidates), c', w')
          \<and> mongos_candidates \<noteq> [] \<and> candidates c = pre @ x # rest
          \<longrightarrow> find_node depth w c t = (Inl mixed_seed_list_error, c1, w1))
       \<and> (c' = c \<and> w' = w \<and> candidates c = x # rest
          \<longrightarrow> find_node depth w c t = (Inr (mem, nds), c1, w1))"
proof (intro conjI impI)
  assume a: "find_node_loop depth t pre [] [] c w = (Inr (None, errors, mongos_candidates), c', w')
          \<and> mongos_candidates \<noteq> [] \<and> candidates c = pre @ x # rest"
  then show "find_node depth w c t = (Inl mixed_seed_list_error, c1, w1)"
    using assms find_node_loop_append [of depth t pre "[]" "[]" c w errors mongos_candidates c' w' "x # rest"]
    by (simp add: find_node_def)
next
  assume "c' = c \<and> w' = w \<and> candidates c = x # rest"
  then show "find_node depth w c t = (Inr (mem, nds), c1, w1)"
    using assms by (simp add: find_node_def)
qed

text \<open>
  The router \<^verbatim>\<open>b:2\<close> before the mongod \<^verbatim>\<open>a:1\<close>: the error is raised. Two
  mongods: the first is returned.
\<close>

theorem mixed_seed_list_witness:
  "member (seed_list_client [(''b'', 2), (''a'', 1)]) = None
   \<and> fst (find_node_loop (Suc 0) 0 [(''b'', 2)] [] []
            (seed_list_client [(''b'', 2), (''a'', 1)]) mixed_world)
       = Inr (None, [], [Member (''b'', 2) 0 mongos_response 0])
   \<and> candidates (seed_list_client [(''b'', 2), (''a'', 1)]) = [(''b'', 2)] @ (''a'', 1) # []
   \<and> \<not> is_mongos (Member (''a'', 1) 1 mongod_response 0)
   \<and> fst (find_node (Suc 0) mixed_world (seed_list_client [(''b'', 2), (''a'', 1)]) 0)
       = Inl mixed_seed_list_error
   \<and> member (seed_list_client [(''a'', 1), (''c'', 3)]) = None
   \<and> candidates (seed_list_client [(''a'', 1), (''c'', 3)]) = (''a'', 1) # [(''c'', 3)]
   \<and> fst (find_node (Suc 0) mixed_world (seed_list_client [(''a'', 1), (''c'', 3)]) 0)
       = Inr (Member (''a'', 1) 0 mongod_response 0, [(''a'', 1)])"
proof -
  let ?c = "seed_list_client [(''b'', 2), (''a'', 1)]"
  let ?l = "find_node_loop (Suc 0) 0 [(''b'', 2)] [] [] ?c mixed_world"
  let ?p = "try_node (Suc 0) (snd (snd ?l)) (fst (snd ?l)) 0 (''a'', 1)"
  let ?d = "seed_list_client [(''a'', 1), (''c'', 3)]"
  let ?q = "try_node (Suc 0) mixed_world ?d 0 (''a'', 1)"
  have m: "member ?c = None" "member ?d = None"
    by (simp_all add: eval_defs)
  have l: "fst ?l = Inr (None, [], [Member (''b'', 2) 0 mongos_response 0])"
    by (simp add: eval_defs)
  then have l': "?l = (Inr (None, [], [Member (''b'', 2) 0 mongos_response 0]),
      fst (snd ?l), snd (snd ?l))"
    by (simp add: prod_eq_iff)
  have p: "fst ?p = Inr (Member (''a'', 1) 1 mongod_response 0, [(''a'', 1)])"
    by (simp add: eval_defs)
  then have p': "?p = (Inr (Member (''a'', 1) 1 mongod_response 0, [(''a'', 1)]),
      fst (snd ?p), snd (snd ?p))"
    by (simp add: prod_eq_iff)
  have q: "fst ?q = Inr (Member (''a'', 1) 0 mongod_response 0, [(''a'', 1)])"
    by (simp add: eval_defs)
  then have q': "?q = (Inr (Member (''a'', 1) 0 mongod_response 0, [(''a'', 1)]),
      fst (snd ?q), snd (snd ?q))"
    by (simp add: prod_eq_iff)
  have n: "\<not> is_mongos (Member (''a'', 1) 1 mongod_response 0)"
    "\<not> is_mongos (Member (''a'', 1) 0 mongod_response 0)"
    by (simp_all add: eval_defs)
  have k: "candidates ?c = [(''b'', 2)] @ (''a'', 1) # []"
    "candidates ?d = (''a'', 1) # [(''c'', 3)]"
    by (simp_all add: eval_defs)
  from mixed_seed_list [OF m(1) p' n(1), where pre = "[(''b'', 2)]" and w = mixed_world
      and errors = "[]" and mongos_candidates = "[Member (''b'', 2) 0 mongos_response 0]"
      and rest = "[]"] l' k(1)
  have r1: "fst (find_node (Suc 0) mixed_world ?c 0) = Inl mixed_seed_list_error"
    by simp
  from mixed_seed_list [OF m(2) q' n(2), where rest = "[(''c'', 3)]"] k(2)
  have r2: "fst (find_node (Suc 0) mixed_world ?d 0)
       = Inr (Member (''a'', 1) 0 mongod_response 0, [(''a'', 1)])"
    by simp
  show ?thesis using m l k n r1 r2 by simp
qed

text \<open>
  The statement of the specification fails when the mongod is probed first: both
  candidates are reachable, \<^verbatim>\<open>a:1\<close> answers as a mongod and \<^verbatim>\<open>b:2\<close> as a router,
  and \<^verbatim>\<open>__find_node\<close> returns the mongod without an error.
\<close>

theorem mongod_before_router_counterexample:
  "\<not> direct (seed_list_client [(''a'', 1), (''b'', 2)])
   \<and> candidates (seed_list_client [(''a'', 1), (''b'', 2)]) = [(''a'', 1), (''b'', 2)]
   \<and> fst (call_ismaster mixed_world (seed_list_client [(''a'', 1), (''b'', 2)]) 0 (''a'', 1))
       = Inr (mongod_response, 0)
   \<and> map_of mongod_response ''msg'' = None
   \<and> fst (call_ismaster mixed_world (seed_list_client [(''a'', 1), (''b'', 2)]) 0 (''b'', 2))
       = Inr (mongos_response, 0)
   \<and> map_of mongos_response ''msg'' = Some (BStr ''isdbgrid'')
   \<and> fst (find_node (Suc 0) mixed_world (seed_list_client [(''a'', 1), (''b'', 2)]) 0)
       = Inr (Member (''a'', 1) 0 mongod_response 0, [(''a'', 1)])"
  by (simp add: eval_defs)

subsection \<open>The reply to lastError\<close>

lemma errobj_loop_err:
  "errobj_loop m details os = Inr d \<Longrightarrow> map_of details ''err'' = Some (BStr m) \<Longrightarrow>
   map_of d ''err'' = Some (BStr m)"
  by (induction m details os rule: errobj_loop.induct) (auto split: if_splits)

lemma last_error_details_err:
  "last_error_details m result = Inr d \<Longrightarrow> map_of result ''err'' = Some (BStr m) \<Longrightarrow>
   map_of d ''err'' = Some (BStr m)"
  by (auto simp: last_error_details_def split: option.splits sum.splits
      dest: errobj_loop_err)

text \<open>
  C5, as the code has it. Take a lastError reply (not a write command) that unpacks to
  one document which passes the command check. A null \<^verbatim>\<open>err\<close> yields that document
  and no exception. An \<^verbatim>\<open>err\<close> that starts with "not master" makes the client
  disconnect and raise \<^verbatim>\<open>AutoReconnect\<close>, whatever the code. Any other \<^verbatim>\<open>err\<close>
  string raises \<^verbatim>\<open>DuplicateKeyError\<close> when the code of the details is 11000, 11001
  or 12582 and \<^verbatim>\<open>OperationFailure\<close> otherwise, where the details are the reply
  itself or, if there is one, the first of its \<^verbatim>\<open>errObjects\<close> whose \<^verbatim>\<open>err\<close> is
  the same message.
\<close>

theorem last_error_translation:
  assumes "unpack_response w resp = Inr unpacked"
    and "number_returned unpacked = 1"
    and "data unpacked = result # others"
    and "check_command_response w result = None"
  shows "(map_of result ''err'' = Some BNull \<longrightarrow>
            check_response_to_last_error w c resp False = (Inr result, c))
       \<and> (map_of result ''err'' = Some (BStr m) \<and> prefix ''not master'' m \<longrightarrow>
            check_response_to_last_error w c resp False
              = (Inl (AutoReconnect [S m]), disconnect w c))
       \<and> (map_of result ''err'' = Some (BStr m) \<and> \<not> prefix ''not master'' m
            \<and> last_error_details m result = Inr details \<longrightarrow>
            check_response_to_last_error w c resp False
              = (Inl (if duplicate_key_code (map_of details ''code'')
                      then DuplicateKeyError [S m] (map_of details ''code'')
                      else OperationFailure [S m] (map_of details ''code'')), c))
       \<and> (map_of result ''errObjects'' = None \<longrightarrow> last_error_details m result = Inr result)"
  using assms last_error_details_err [of m result details]
  by (auto simp: check_response_to_last_error_def last_error_details_def Let_def)

text \<open>
  The example replies: the duplicate key, "not master", no error, and the router's reply,
  whose code 11001 is found in its second error object.
\<close>

theorem last_error_translation_witness:
  "unpack_response (reply_world duplicate_reply) [] = Inr \<lparr>number_returned = 1, data = [duplicate_reply]\<rparr>
   \<and> check_command_response (reply_world duplicate_reply) duplicate_reply = None
   \<and> check_response_to_last_error (reply_world duplicate_reply) arbiter_client [] False
       = (Inl (DuplicateKeyError [S ''E11000 duplicate key error''] (Some (BInt 11000))),
          arbiter_client)
   \<and> check_response_to_last_error (reply_world not_master_reply) arbiter_client [] False
       = (Inl (AutoReconnect [S ''not master'']),
          disconnect (reply_world not_master_reply) arbiter_client)
   \<and> member (disconnect (reply_world not_master_reply) arbiter_client) = None
   \<and> check_response_to_last_error (reply_world no_error_reply) arbiter_client [] False
       = (Inr no_error_reply, arbiter_client)
   \<and> last_error_details ''E11001 duplicate key on update'' sharded_reply
       = Inr [(''err'', BStr ''E11001 duplicate key on update''), (''code'', BInt 11001)]
   \<and> check_response_to_last_error (reply_world sharded_reply) arbiter_client [] False
       = (Inl (DuplicateKeyError [S ''E11001 duplicate key on update''] (Some (BInt 11001))),
          arbiter_client)"
proof -
  let ?u = "\<lambda>d. \<lparr>number_returned = 1, data = [d]\<rparr>"
  have u: "\<And>d. unpack_response (reply_world d) [] = Inr (?u d)"
    "\<And>d. number_returned (?u d) = 1" "\<And>d. data (?u d) = d # []"
    "\<And>d. check_command_response (reply_world d) d = None"
    by (simp_all add: reply_world_def example_world_def)
  have f: "map_of duplicate_reply ''err'' = Some (BStr ''E11000 duplicate key error'')"
    "\<not> prefix ''not master'' ''E11000 duplicate key error''"
    "map_of duplicate_reply ''errObjects'' = None"
    "duplicate_key_code (map_of duplicate_reply ''code'')"
    "map_of duplicate_reply ''code'' = Some (BInt 11000)"
    "map_of not_master_reply ''err'' = Some (BStr ''not master'')"
    "prefix ''not master'' ''not master''"
    "map_of no_error_reply ''err'' = Some BNull"
    "map_of sharded_reply ''err'' = Some (BStr ''E11001 duplicate key on update'')"
    "\<not> prefix ''not master'' ''E11001 duplicate key on update''"
    "last_error_details ''E11001 duplicate key on update'' sharded_reply
       = Inr [(''err'', BStr ''E11001 duplicate key on update''), (''code'', BInt 11001)]"
    by (simp_all add: duplicate_reply_def not_master_reply_def no_error_reply_def
        sharded_reply_def last_error_details_def duplicate_key_code_def)
  have d: "member (disconnect (reply_world not_master_reply) arbiter_client) = None"
    by (simp add: disconnect_def arbiter_client_def direct_client_def)
  show ?thesis
    using u f d
      last_error_translation [where w = "reply_world duplicate_reply" and resp = "[]"
        and result = duplicate_reply and c = arbiter_client
        and m = "''E11000 duplicate key error''" and details = duplicate_reply,
        OF u(1) u(2) u(3) u(4)]
      last_error_translation [where w = "reply_world not_master_reply" and resp = "[]"
        and result = not_master_reply and c = arbiter_client
        and m = "''not master''" and details = not_master_reply,
        OF u(1) u(2) u(3) u(4)]
      last_error_translation [where w = "reply_world no_error_reply" and resp = "[]"
        and result = no_error_reply and c = arbiter_client
        and m = "''x''" and details = no_error_reply,
        OF u(1) u(2) u(3) u(4)]
      last_error_translation [where w = "reply_world sharded_reply" and resp = "[]"
        and result = sharded_reply and c = arbiter_client
        and m = "''E11001 duplicate key on update''"
        and details = "[(''err'', BStr ''E11001 duplicate key on update''),
                        (''code'', BInt 11001)]",
        OF u(1) u(2) u(3) u(4)]
    by (simp add: duplicate_key_code_def)
qed

text \<open>
  The statement of the specification fails where its cases overlap: the reply has code
  11000 and an \<^verbatim>\<open>err\<close> that starts with "not master", and the client raises
  \<^verbatim>\<open>AutoReconnect\<close>, not \<^verbatim>\<open>DuplicateKeyError\<close>.
\<close>

theorem not_master_duplicate_code_counterexample:
  "map_of not_master_reply ''err'' = Some (BStr ''not master'')
   \<and> map_of not_master_reply ''code'' = Some (BInt 11000)
   \<and> unpack_response (reply_world not_master_reply) [] = Inr \<lparr>number_returned = 1, data = [not_master_reply]\<rparr>
   \<and> check_command_response (reply_world not_master_reply) not_master_reply = None
   \<and> fst (check_response_to_last_error (reply_world not_master_reply) arbiter_client [] False)
       = Inl (AutoReconnect [S ''not master''])"
  by (simp add: eval_defs)

subsection \<open>Sending a message\<close>

text \<open>
  C6. \<^verbatim>\<open>_send_message\<close> with \<^verbatim>\<open>check_primary\<close> true and \<^verbatim>\<open>with_last_error\<close>
  false raises \<^verbatim>\<open>AutoReconnect("not master")\<close> when the current member is not
  primary: with a cached member the client and the world, hence the trace of everything
  sent, are unchanged; when the member has to be resolved first, nothing happens after
  the resolution.
\<close>

theorem not_master_without_sending:
  "(member c = Some m \<and> \<not> is_primary m \<longrightarrow>
      send_message depth w c t message False command True
        = (Inl (AutoReconnect [S ''not master'']), c, w))
   \<and> (ensure_member depth w c t = (Inr m, c1, w1) \<and> \<not> client_is_primary c1 \<longrightarrow>
        send_message depth w c t message False command True
          = (Inl (AutoReconnect [S ''not master'']), c1, w1))"
  by (simp add: send_message_def ensure_member_def client_is_primary_def)

text \<open>
  The client with a cached arbiter, and the direct client that resolves to an arbiter.
\<close>

theorem not_master_without_sending_witness:
  "member arbiter_client = Some (Member (''localhost'', 27017) 0 arbiter_response 0)
   \<and> \<not> is_primary (Member (''localhost'', 27017) 0 arbiter_response 0)
   \<and> send_message (Suc 0) example_world arbiter_client 0 oversized_message False False True
       = (Inl (AutoReconnect [S ''not master'']), arbiter_client, example_world)
   \<and> fst (ensure_member (Suc 0) arbiter_world direct_client 0)
       = Inr (Member (''localhost'', 27017) 0 arbiter_response 0)
   \<and> \<not> client_is_primary (fst (snd (ensure_member (Suc 0) arbiter_world direct_client 0)))
   \<and> send_message (Suc 0) arbiter_world direct_client 0 oversized_message False False True
       = (Inl (AutoReconnect [S ''not master'']),
          snd (ensure_member (Suc 0) arbiter_world direct_client 0))"
proof -
  let ?m = "Member (''localhost'', 27017) 0 arbiter_response 0"
  let ?e = "ensure_member (Suc 0) arbiter_world direct_client 0"
  have a: "member arbiter_client = Some ?m" "\<not> is_primary ?m"
    by (simp_all add: eval_defs)
  have e: "fst ?e = Inr ?m"
    by (simp add: eval_defs)
  then have e': "?e = (Inr ?m, fst (snd ?e), snd (snd ?e))"
    by (simp add: prod_eq_iff)
  have p: "\<not> client_is_primary (fst (snd ?e))"
    by (simp add: eval_defs)
  show ?thesis
    using a e p e'
      not_master_without_sending [of arbiter_client ?m "Suc 0" example_world 0
        oversized_message False]
      not_master_without_sending [of direct_client ?m "Suc 0" arbiter_world 0
        oversized_message False "fst (snd ?e)" "snd (snd ?e)"]
    by simp
qed

text \<open>
  C7, as the code has it. \<^verbatim>\<open>__check_bson_size\<close> raises \<^verbatim>\<open>DocumentTooLarge\<close> for a
  three-element message whose \<^verbatim>\<open>max_doc_size\<close> is greater than the member's
  \<^verbatim>\<open>max_bson_size\<close>, and passes \<^verbatim>\<open>(request_id, data)\<close> for the other
  three-element messages and for the two-element ones. \<^verbatim>\<open>_send_message\<close> makes this
  check after it has a member, has passed the test for the primary and has taken a socket
  from the pool: then it raises \<^verbatim>\<open>DocumentTooLarge\<close>, the socket goes through the
  with-statement's exit, and the world is the one that taking the socket left, so that
  nothing of the message is sent.
\<close>

theorem document_too_large_before_send:
  "(max_doc_size > client_max_bson_size c \<longrightarrow>
      check_bson_size c (Msg3 request_id dat max_doc_size)
        = Inl (document_too_large max_doc_size (client_max_bson_size c)))
   \<and> (max_doc_size \<le> client_max_bson_size c \<longrightarrow>
        check_bson_size c (Msg3 request_id dat max_doc_size) = Inr (request_id, dat))
   \<and> check_bson_size c (Msg2 request_id dat) = Inr (request_id, dat)
   \<and> (ensure_member depth w c t = (Inr mem, c1, w1)
        \<and> \<not> (check_primary \<and> \<not> with_last_error \<and> \<not> client_is_primary c1)
        \<and> socket w1 c1 t mem = (Inr sock_info, c2, w2)
        \<and> max_doc_size > client_max_bson_size c2 \<longrightarrow>
        send_message depth w c t (Msg3 request_id dat max_doc_size)
            with_last_error command check_primary
          = (Inl (document_too_large max_doc_size (client_max_bson_size c2)),
             c2\<lparr>pools := (pools c2)
                  (pool mem := SocketInfo_exit w2 (pools c2 (pool mem)) t sock_info)\<rparr>,
             w2))"
  by (auto simp: send_message_def send_message_try_def send_message_handlers_def
      document_too_large_def Let_def)

lemma plain_connected_fst:
  "fst plain_connected = Inr (Member (''localhost'', 27017) 0 mongod_response 0)"
  by (simp add: eval_defs)

lemma plain_connected_member:
  "member (fst (snd plain_connected)) = Some (Member (''localhost'', 27017) 0 mongod_response 0)"
  by (simp add: eval_defs)

lemma plain_connected_socket:
  "fst (socket (snd (snd plain_connected)) (fst (snd plain_connected)) 0
         (Member (''localhost'', 27017) 0 mongod_response 0)) = Inr 0"
  "trace (snd (snd (socket (snd (snd plain_connected)) (fst (snd plain_connected)) 0
         (Member (''localhost'', 27017) 0 mongod_response 0)))) = trace (snd (snd plain_connected))"
  "member (fst (snd (socket (snd (snd plain_connected)) (fst (snd plain_connected)) 0
         (Member (''localhost'', 27017) 0 mongod_response 0))))
     = Some (Member (''localhost'', 27017) 0 mongod_response 0)"
  by (simp_all add: eval_defs)

text \<open>
  The connected client without credentials: its idle socket is taken without any network
  event, and the trace is the same before and after.
\<close>

theorem document_too_large_before_send_witness:
  "check_bson_size (fst (snd plain_connected)) (Msg3 7 [1, 2, 3] 3) = Inr (7, [1, 2, 3])
   \<and> MAX_BSON_SIZE + 1 > client_max_bson_size (fst (snd plain_connected))
   \<and> check_bson_size (fst (snd plain_connected)) oversized_message
       = Inl (document_too_large (MAX_BSON_SIZE + 1) MAX_BSON_SIZE)
   \<and> fst (send_message (Suc 0) (snd (snd plain_connected)) (fst (snd plain_connected)) 0
            oversized_message True False True)
       = Inl (document_too_large (MAX_BSON_SIZE + 1) MAX_BSON_SIZE)
   \<and> trace (snd (snd (send_message (Suc 0) (snd (snd plain_connected))
            (fst (snd plain_connected)) 0 oversized_message True False True)))
       = trace (snd (snd plain_connected))"
proof -
  let ?m = "Member (''localhost'', 27017) 0 mongod_response 0"
  let ?c = "fst (snd plain_connected)"
  let ?w = "snd (snd plain_connected)"
  let ?s = "socket ?w ?c 0 ?m"
  have e: "ensure_member (Suc 0) ?w ?c 0 = (Inr ?m, ?c, ?w)"
    by (simp add: ensure_member_def plain_connected_member)
  have s: "?s = (Inr 0, fst (snd ?s), snd (snd ?s))"
    using plain_connected_socket(1) by (simp add: prod_eq_iff)
  have b: "client_max_bson_size ?c = MAX_BSON_SIZE"
    "client_max_bson_size (fst (snd ?s)) = MAX_BSON_SIZE"
    by (simp_all add: client_max_bson_size_def plain_connected_member plain_connected_socket(3))
      (simp_all add: Member_def get_int_def mongod_response_def)
  show ?thesis
    using e s b plain_connected_socket(2)
      document_too_large_before_send [where max_doc_size = 3 and c = ?c
        and request_id = 7 and dat = "[1, 2, 3]"]
      document_too_large_before_send [where max_doc_size = "MAX_BSON_SIZE + 1" and c = ?c
        and request_id = 7 and dat = "[1, 2, 3]" and depth = "Suc 0" and w = ?w and t = 0
        and mem = ?m and ?c1.0 = ?c and ?w1.0 = ?w and check_primary = True
        and with_last_error = True and sock_info = 0 and ?c2.0 = "fst (snd ?s)"
        and ?w2.0 = "snd (snd ?s)" and command = False]
    by (simp add: oversized_message_def MAX_BSON_SIZE_def)
qed

text \<open>
  The statement of the specification fails: with a cached credential, the client
  authenticates the socket it takes, a command sent and its reply received, before it
  raises \<^verbatim>\<open>DocumentTooLarge\<close>.
\<close>

theorem io_before_document_too_large_counterexample:
  "fst connected = Inr (Member (''localhost'', 27017) 0 mongod_response 0)
   \<and> max_bson_size (Member (''localhost'', 27017) 0 mongod_response 0) = MAX_BSON_SIZE
   \<and> oversized_message = Msg3 7 [1, 2, 3] (MAX_BSON_SIZE + 1)
   \<and> fst (send_message (Suc 0) (snd (snd connected)) (fst (snd connected)) 0
            oversized_message False False True)
       = Inl (document_too_large (MAX_BSON_SIZE + 1) MAX_BSON_SIZE)
   \<and> trace (snd (snd (send_message (Suc 0) (snd (snd connected)) (fst (snd connected)) 0
            oversized_message False False True)))
       = trace (snd (snd connected))
         @ [Send (0, (''localhost'', 27017))
              (Query ''admin.$cmd''
                 [(''authenticate'', BInt 1), (''mechanism'', BStr ''MONGODB-CR''),
                  (''user'', BStr ''user''), (''pwd'', BStr ''secret'')]),
            Receive (0, (''localhost'', 27017))]"
  by (simp add: eval_defs)

subsection \<open>Resolution and the known nodes\<close>

lemma only_pools_refl [simp]: "only_pools c c"
  by (simp add: only_pools_def)









end
